theory Spec2Isabelle
  imports Complex_Main
begin

section \<open>Numbers\<close>

text \<open>
  JavaScript numbers are modelled by the reals (rounding is not modelled). The two
  divisions of the program whose divisor can be zero return \<open>None\<close> for a result that
  is not a finite number (\<open>NaN\<close>, \<open>Infinity\<close>, \<open>-Infinity\<close>); every later
  operation on such a value stays non-finite, which \<open>map_option\<close> expresses.
\<close>

definition js_divide :: "real \<Rightarrow> real \<Rightarrow> real option" where
  "js_divide p q = (if q = 0 then None else Some (p / q))"

text \<open>The remainder operator \<open>%\<close> on integers with a positive divisor: the sign of the dividend.\<close>

definition js_rem :: "int \<Rightarrow> int \<Rightarrow> int" where
  "js_rem p q = (if p < 0 then - ((- p) mod q) else p mod q)"

definition digit_char :: "nat \<Rightarrow> char" where
  "digit_char d = ''0123456789'' ! d"

function showNat :: "nat \<Rightarrow> string" where
  "showNat n = (if n < 10 then [digit_char n] else showNat (n div 10) @ [digit_char (n mod 10)])"
  by pat_completeness auto
termination
  by (relation "measure id") auto

declare showNat.simps [simp del]

text \<open>\<open>Number.prototype.toString\<close> on an integer.\<close>

definition toString :: "int \<Rightarrow> string" where
  "toString i = (if i < 0 then CHR ''-'' # showNat (nat (- i)) else showNat (nat i))"

text \<open>\<open>s.padStart(n, '0')\<close>.\<close>

definition padStart :: "string \<Rightarrow> nat \<Rightarrow> string" where
  "padStart s n = replicate (n - length s) CHR ''0'' @ s"

section \<open>three.js vectors\<close>

text \<open>
  The operations of \<open>THREE.Vector3\<close> and \<open>THREE.Triangle\<close> that the program calls,
  as the library defines them: \<open>normalize\<close> divides by \<open>length() || 1\<close>, so the zero
  vector stays the zero vector; \<open>angleTo\<close> returns a right angle when one of the vectors
  has length zero and clamps the cosine to \<open>[-1, 1]\<close> otherwise; the area of a triangle is
  half the length of the cross product of two of its edges.
\<close>

datatype Vector3 = Vector3 (vx: real) (vy: real) (vz: real)

fun addV :: "Vector3 \<Rightarrow> Vector3 \<Rightarrow> Vector3" where
  "addV (Vector3 px py pz) (Vector3 qx qy qz) = Vector3 (px + qx) (py + qy) (pz + qz)"

fun subVectors :: "Vector3 \<Rightarrow> Vector3 \<Rightarrow> Vector3" where
  "subVectors (Vector3 px py pz) (Vector3 qx qy qz) = Vector3 (px - qx) (py - qy) (pz - qz)"

fun divideScalar :: "Vector3 \<Rightarrow> real \<Rightarrow> Vector3" where
  "divideScalar (Vector3 px py pz) s = Vector3 (px / s) (py / s) (pz / s)"

fun crossVectors :: "Vector3 \<Rightarrow> Vector3 \<Rightarrow> Vector3" where
  "crossVectors (Vector3 px py pz) (Vector3 qx qy qz) =
     Vector3 (py * qz - pz * qy) (pz * qx - px * qz) (px * qy - py * qx)"

fun dot :: "Vector3 \<Rightarrow> Vector3 \<Rightarrow> real" where
  "dot (Vector3 px py pz) (Vector3 qx qy qz) = px * qx + py * qy + pz * qz"

definition lengthSq :: "Vector3 \<Rightarrow> real" where
  "lengthSq v = dot v v"

definition vlength :: "Vector3 \<Rightarrow> real" where
  "vlength v = sqrt (lengthSq v)"

definition normalize :: "Vector3 \<Rightarrow> Vector3" where
  "normalize v = divideScalar v (if vlength v = 0 then 1 else vlength v)"

definition clamp :: "real \<Rightarrow> real \<Rightarrow> real \<Rightarrow> real" where
  "clamp v lo hi = max lo (min hi v)"

definition angleTo :: "Vector3 \<Rightarrow> Vector3 \<Rightarrow> real" where
  "angleTo v w =
     (let denominator = sqrt (lengthSq v * lengthSq w)
      in if denominator = 0 then pi / 2
         else arccos (clamp (dot v w / denominator) (- 1) 1))"

definition getArea :: "Vector3 \<Rightarrow> Vector3 \<Rightarrow> Vector3 \<Rightarrow> real" where
  "getArea p q r = vlength (crossVectors (subVectors r q) (subVectors p q)) * 0.5"

section \<open>The page, the light and the module state\<close>

text \<open>
  The text of an element of the info card: a plain string, or a template
  \<open>prefix + n.toFixed(2) + suffix\<close> whose number is kept as it is (\<open>None\<close> prints
  as \<open>NaN\<close>).
\<close>

datatype innerText = Plain string | Fixed2 string "real option" string

text \<open>
  The elements that the program looks up by id. \<open>None\<close> is an element that
  \<open>getElementById\<close> does not find. The value of the date input is a string; the value
  of the range input is the integer \<open>parseInt\<close> reads; the value of the number input is
  the number \<open>parseFloat\<close> reads, or \<open>None\<close> when it is the empty string.
\<close>

record document =
  dateInput :: "string option"
  timeSlider :: "int option"
  ghi :: "real option option"
  buildingName :: "innerText option"
  totalDaytime :: "innerText option"
  totalArea :: "innerText option"
  rooftopArea :: "innerText option"
  shadowFraction :: "innerText option"
  shadowFractionRooftop :: "innerText option"
  pvValue :: "innerText option"
  pvValueRooftop :: "innerText option"
  infoCard :: "string option"

record SunPosition =
  azimuth :: real
  altitude :: real

text \<open>
  A material, with what the program sets in it; \<open>needsUpdate = true\<close> increments the
  version. A mesh with its geometry: the \<open>position\<close> array, the \<open>index\<close> array when
  the geometry has one, and the \<open>color\<close> attribute once it is set (\<open>None\<close> in the array
  is \<open>NaN\<close>).
\<close>

record Material =
  materialColor :: nat
  vertexColors :: bool
  version :: nat

record Mesh =
  meshName :: string
  positionArray :: "real list"
  indexArray :: "nat list option"
  colorAttribute :: "real option list option"
  material :: Material

record DirectionalLight =
  lightPosition :: Vector3
  lightTarget :: "Vector3 option"
  intensity :: real

datatype js_error = TypeError

text \<open>
  What the functions read and write besides their arguments: the page, the alerts shown,
  the messages of \<open>console.error\<close>, the exported \<open>sunPosition\<close> object, the number of
  calls of \<open>Math.random\<close> made so far, the mesh objects by their ids, and the two module
  variables \<open>originalMaterials\<close> and \<open>highlightedBuilding\<close> of buildingUtils.ts.
\<close>

record world =
  page :: document
  alerts :: "string list"
  console :: "string list"
  sunPosition :: SunPosition
  randomCalls :: nat
  meshes :: "nat \<Rightarrow> Mesh"
  originalMaterials :: "nat \<rightharpoonup> Material"
  highlightedBuilding :: "nat option"

section \<open>sunPosition.ts\<close>

text \<open>
  \<open>getPosition s\<close> stands for \<open>SunCalc.getPosition(new Date(s), LATITUDE, LONGITUDE)\<close>,
  for a string \<open>s\<close> that is a date (for any other string the library's angles are \<open>NaN\<close>,
  for which the reals have no value). The function returns the value or the exception, the
  light and the state after the call.
\<close>

definition updateSunPosition ::
  "(string \<Rightarrow> SunPosition) \<Rightarrow> DirectionalLight \<Rightarrow> world \<Rightarrow>
     (js_error + Vector3 option) \<times> DirectionalLight \<times> world" where
  "updateSunPosition getPosition light w =
     (case dateInput (page w) of
        None \<Rightarrow> (Inr None, light, w\<lparr>alerts := alerts w @ [''Please enter a date.'']\<rparr>)
      | Some dateValue \<Rightarrow>
          if dateValue = [] then
            (Inr None, light, w\<lparr>alerts := alerts w @ [''Please enter a date.'']\<rparr>)
          else
            (case timeSlider (page w) of
               None \<Rightarrow> (Inl TypeError, light, w)
             | Some sliderValue \<Rightarrow>
                 let hours = sliderValue div 60;
                     minutes = js_rem sliderValue 60;
                     timeInput = padStart (toString hours) 2 @ '':'' @ padStart (toString minutes) 2;
                     sunPos = getPosition (dateValue @ ''T'' @ timeInput);
                     radius = 1500;
                     px = radius * cos (azimuth sunPos) * cos (altitude sunPos);
                     py = radius * sin (altitude sunPos);
                     pz = radius * sin (azimuth sunPos) * cos (altitude sunPos);
                     light1 = light\<lparr>lightPosition := Vector3 px py pz\<rparr>;
                     light2 = (case lightTarget light1 of
                                 None \<Rightarrow> light1
                               | Some _ \<Rightarrow> light1\<lparr>lightTarget := Some (Vector3 0 0 0)\<rparr>);
                     light3 = light2\<lparr>intensity := (if altitude sunPos < 0 then 0 else 5)\<rparr>
                 in (Inr (Some (Vector3 px py pz)), light3, w\<lparr>sunPosition := sunPos\<rparr>)))"

text \<open>
  \<open>getTimes s\<close> stands for the \<open>getTime()\<close> of the sunrise and of the sunset of
  \<open>SunCalc.getTimes(new Date(s), LATITUDE, LONGITUDE)\<close>, \<open>None\<close> when they are not numbers.
\<close>

definition getTotalDaytime :: "(string \<Rightarrow> (real \<times> real) option) \<Rightarrow> string \<Rightarrow> real option" where
  "getTotalDaytime getTimes date =
     map_option (\<lambda>(sunrise, sunset). (sunset - sunrise) / (1000 * 60 * 60)) (getTimes date)"

section \<open>shadowCalculate.ts\<close>

subsection \<open>The scene and the ray caster\<close>

text \<open>
  An object of the scene graph has a name (\<open>None\<close> when the property is missing), an id and
  children. \<open>raycast i origin direction\<close> stands for the library's intersection test of
  the geometry of the object with id \<open>i\<close>: the distances of its intersections with the ray.
  \<open>Raycaster.intersectObject(scene, true)\<close> tests the object and all its descendants and
  sorts the intersections by distance.
\<close>

datatype Object3D = Object3D (objectName: "string option") (objectId: nat) (children: "Object3D list")

datatype Intersection = Intersection (distance: real) (object: Object3D)

fun intersect ::
  "(nat \<Rightarrow> Vector3 \<Rightarrow> Vector3 \<Rightarrow> real list) \<Rightarrow> Vector3 \<Rightarrow> Vector3 \<Rightarrow> Object3D \<Rightarrow> Intersection list" where
  "intersect raycast origin direction (Object3D n i cs) =
     map (\<lambda>d. Intersection d (Object3D n i cs)) (raycast i origin direction)
     @ concat (map (intersect raycast origin direction) cs)"

definition intersectObject ::
  "(nat \<Rightarrow> Vector3 \<Rightarrow> Vector3 \<Rightarrow> real list) \<Rightarrow> Vector3 \<Rightarrow> Vector3 \<Rightarrow> Object3D \<Rightarrow> Intersection list" where
  "intersectObject raycast origin direction scene =
     sort_key distance (intersect raycast origin direction scene)"

subsection \<open>isPointInShadow\<close>

text \<open>The filter of the intersections: a missing or empty name passes, any other name but \<open>Sky\<close> passes.\<close>

definition validIntersect :: "Intersection \<Rightarrow> bool" where
  "validIntersect i =
     (case objectName (object i) of
        None \<Rightarrow> True
      | Some n \<Rightarrow> if n = [] then True else n \<noteq> ''Sky'')"

text \<open>
  \<open>random k\<close> is what the call of \<open>Math.random\<close> number \<open>k\<close> returns. The loop over the
  rays carries the count of shadowed rays and the number of calls of \<open>Math.random\<close>.
\<close>

function rayLoop ::
  "(nat \<Rightarrow> real) \<Rightarrow> (nat \<Rightarrow> Vector3 \<Rightarrow> Vector3 \<Rightarrow> real list) \<Rightarrow> Object3D \<Rightarrow> Vector3 \<Rightarrow> Vector3 \<Rightarrow>
     nat \<Rightarrow> nat \<Rightarrow> nat \<times> nat \<Rightarrow> nat \<times> nat" where
  "rayLoop random raycast scene point direction numRays i (shadowedRays, calls) =
     (if i < numRays then
        let offset = Vector3 ((random calls - 0.5) * 0.01)
                             ((random (calls + 1) - 0.5) * 0.01)
                             ((random (calls + 2) - 0.5) * 0.01);
            rayDirection = normalize (addV direction offset);
            intersects = intersectObject raycast point rayDirection scene;
            validIntersects = filter validIntersect intersects
        in rayLoop random raycast scene point direction numRays (i + 1)
             (if length validIntersects > 0 then shadowedRays + 1 else shadowedRays, calls + 3)
      else (shadowedRays, calls))"
  by pat_completeness auto
termination
  by (relation "measure (\<lambda>(random, raycast, scene, point, direction, numRays, i, acc). numRays - i)") auto

declare rayLoop.simps [simp del]

text \<open>
  The shadow fraction, and the number of calls of \<open>Math.random\<close> after the call. The
  program calls the function without \<open>numRays\<close>, that is with the default 50; the division
  is the one of the reals, which is the program's for every \<open>numRays\<close> but 0.
\<close>

definition isPointInShadow ::
  "(nat \<Rightarrow> real) \<Rightarrow> (nat \<Rightarrow> Vector3 \<Rightarrow> Vector3 \<Rightarrow> real list) \<Rightarrow> Vector3 \<Rightarrow> DirectionalLight \<Rightarrow>
     Object3D \<Rightarrow> nat \<Rightarrow> nat \<Rightarrow> real \<times> nat" where
  "isPointInShadow random raycast point light scene numRays calls =
     (let direction = normalize (subVectors (lightPosition light) point);
          (shadowedRays, calls') =
             rayLoop random raycast scene point direction numRays 0 (0, calls);
          shadowFraction = real shadowedRays / real numRays
      in (shadowFraction, calls'))"

subsection \<open>calculateRooftopArea\<close>

datatype FaceType = Rooftop | Vertical

text \<open>
  A \<open>BipvValue\<close>. The second and third index are \<open>None\<close> where the index array ends
  inside a triangle: the read past its end is \<open>undefined\<close>.
\<close>

record BipvValue =
  faceA :: nat
  faceB :: "nat option"
  faceC :: "nat option"
  bipvValue :: real
  faceType :: FaceType

definition readIndex :: "nat list \<Rightarrow> nat \<Rightarrow> nat option" where
  "readIndex indices i = (if i < length indices then Some (indices ! i) else None)"

text \<open>
  A read past the end of the position array (or at an undefined index) is \<open>undefined\<close>,
  for which the constructor of \<open>Vector3\<close> takes its default 0.
\<close>

definition readCoord :: "real list \<Rightarrow> nat \<Rightarrow> real" where
  "readCoord vertices i = (if i < length vertices then vertices ! i else 0)"

definition vertexAt :: "real list \<Rightarrow> nat option \<Rightarrow> Vector3" where
  "vertexAt vertices k =
     (case k of
        None \<Rightarrow> Vector3 0 0 0
      | Some a \<Rightarrow> Vector3 (readCoord vertices (a * 3)) (readCoord vertices (a * 3 + 1))
                         (readCoord vertices (a * 3 + 2)))"

definition calculateTriangleArea :: "Vector3 \<Rightarrow> Vector3 \<Rightarrow> Vector3 \<Rightarrow> real" where
  "calculateTriangleArea v1 v2 v3 = getArea v1 v2 v3"

definition isVertical :: "Vector3 \<Rightarrow> bool" where
  "isVertical normal =
     (let vertical = normalize (Vector3 0 1 0);
          angle = angleTo (normalize normal) vertical;
          tolerance = pi / 180
      in \<bar>angle - pi / 2\<bar> < tolerance)"

text \<open>The variables that the loop over the triangles updates.\<close>

record totals =
  totalRooftopArea :: real
  totalVerticalArea :: real
  totalShadowFractionRooftop :: real
  totalShadowFractionVertical :: real
  bipvValues :: "BipvValue list"
  randomUsed :: nat

function faceLoop ::
  "(nat \<Rightarrow> real) \<Rightarrow> (nat \<Rightarrow> Vector3 \<Rightarrow> Vector3 \<Rightarrow> real list) \<Rightarrow> real \<Rightarrow> real list \<Rightarrow> nat list \<Rightarrow>
     DirectionalLight \<Rightarrow> Object3D \<Rightarrow> nat \<Rightarrow> totals \<Rightarrow> totals" where
  "faceLoop random raycast GHI vertices indices light scene i acc =
     (if i < length indices then
        let a = indices ! i;
            b = readIndex indices (i + 1);
            c = readIndex indices (i + 2);
            v1 = vertexAt vertices (Some a);
            v2 = vertexAt vertices b;
            v3 = vertexAt vertices c;
            triangleArea = calculateTriangleArea v1 v2 v3;
            centroid = divideScalar (addV (addV (addV (Vector3 0 0 0) v1) v2) v3) 3;
            normal = normalize (crossVectors (subVectors v2 v1) (subVectors v3 v1));
            (shadowFraction, calls') = isPointInShadow random raycast centroid light scene 50 (randomUsed acc)
        in faceLoop random raycast GHI vertices indices light scene (i + 3)
            (if isVertical normal then
               acc\<lparr>totalVerticalArea := totalVerticalArea acc + triangleArea,
                   totalShadowFractionVertical :=
                     totalShadowFractionVertical acc + shadowFraction * triangleArea,
                   bipvValues := bipvValues acc @
                     [\<lparr>faceA = a, faceB = b, faceC = c,
                       bipvValue = GHI * triangleArea * (1 - shadowFraction) * 0.15,
                       faceType = Vertical\<rparr>],
                   randomUsed := calls'\<rparr>
             else
               acc\<lparr>totalRooftopArea := totalRooftopArea acc + triangleArea,
                   totalShadowFractionRooftop :=
                     totalShadowFractionRooftop acc + shadowFraction * triangleArea,
                   bipvValues := bipvValues acc @
                     [\<lparr>faceA = a, faceB = b, faceC = c,
                       bipvValue = GHI * triangleArea * (1 - shadowFraction) * 0.15,
                       faceType = Rooftop\<rparr>],
                   randomUsed := calls'\<rparr>)
      else acc)"
  by pat_completeness auto
termination
  by (relation "measure (\<lambda>(random, raycast, GHI, vertices, indices, light, scene, i, acc).
        length indices - i)") auto

declare faceLoop.simps [simp del]

definition setText :: "innerText option \<Rightarrow> innerText \<Rightarrow> innerText option" where
  "setText element t = (case element of None \<Rightarrow> None | Some _ \<Rightarrow> Some t)"

definition updateInfoCard ::
  "string \<Rightarrow> real option \<Rightarrow> real \<Rightarrow> real \<Rightarrow> real option \<Rightarrow> real option \<Rightarrow> real option \<Rightarrow>
     real option \<Rightarrow> document \<Rightarrow> document" where
  "updateInfoCard name daytime area roofArea shadow shadowRooftop pv pvRooftop d =
     d\<lparr>buildingName := setText (buildingName d) (Plain name),
       totalDaytime := setText (totalDaytime d) (Fixed2 ''Total Daytime: '' daytime '' hours''),
       totalArea := setText (totalArea d)
          (Fixed2 ''Total Area (Rooftop + Vertical): '' (Some area) '' sq.m''),
       rooftopArea := setText (rooftopArea d) (Fixed2 ''Rooftop Area: '' (Some roofArea) '' sq.m''),
       shadowFraction := setText (shadowFraction d)
          (Fixed2 ''Average Shadow Fraction Over Total Area: '' shadow []),
       shadowFractionRooftop := setText (shadowFractionRooftop d)
          (Fixed2 ''Rooftop Shadow Fraction: '' shadowRooftop []),
       pvValue := setText (pvValue d) (Fixed2 ''Total PV Value: '' pv '' kWhr''),
       pvValueRooftop := setText (pvValueRooftop d)
          (Fixed2 ''PV Value (Rooftop): '' pvRooftop '' kWhr''),
       infoCard := (case infoCard d of None \<Rightarrow> None | Some _ \<Rightarrow> Some ''block'')\<rparr>"

text \<open>
  The function returns the list of the faces' values, or the exception of reading the
  value of an element that is not in the page, and the state after the call.
\<close>

definition calculateRooftopArea ::
  "(nat \<Rightarrow> real) \<Rightarrow> (nat \<Rightarrow> Vector3 \<Rightarrow> Vector3 \<Rightarrow> real list) \<Rightarrow> (string \<Rightarrow> (real \<times> real) option) \<Rightarrow>
     Mesh \<Rightarrow> DirectionalLight \<Rightarrow> Object3D \<Rightarrow> world \<Rightarrow> (js_error + BipvValue list) \<times> world" where
  "calculateRooftopArea random raycast getTimes building light scene w =
     (case ghi (page w) of
        None \<Rightarrow> (Inl TypeError, w)
      | Some ghiValue \<Rightarrow>
          (case dateInput (page w) of
             None \<Rightarrow> (Inl TypeError, w)
           | Some dateValue \<Rightarrow>
               let GHI = (case ghiValue of None \<Rightarrow> 5.5 | Some g \<Rightarrow> g);
                   daytime = getTotalDaytime getTimes dateValue;
                   vertices = positionArray building
               in (case indexArray building of
                     None \<Rightarrow> (Inr [], w\<lparr>console := console w @ [''Geometry must have an index'']\<rparr>)
                   | Some indices \<Rightarrow>
                       let acc = faceLoop random raycast GHI vertices indices light scene 0
                                   \<lparr>totalRooftopArea = 0, totalVerticalArea = 0,
                                    totalShadowFractionRooftop = 0, totalShadowFractionVertical = 0,
                                    bipvValues = [], randomUsed = randomCalls w\<rparr>;
                           area = totalRooftopArea acc + totalVerticalArea acc;
                           totalShadowFraction =
                             js_divide (totalShadowFractionRooftop acc + totalShadowFractionVertical acc) area;
                           totalPVValue = map_option (\<lambda>s. GHI * area * (1 - s) * 0.15) totalShadowFraction;
                           averageShadowFractionRooftop = map_option (\<lambda>s. s * 0.1753) totalShadowFraction;
                           pvRooftop = map_option (\<lambda>s. GHI * totalRooftopArea acc * (1 - s) * 0.15)
                                         averageShadowFractionRooftop
                       in (Inr (bipvValues acc),
                           w\<lparr>randomCalls := randomUsed acc,
                             page := updateInfoCard
                               (if meshName building = [] then ''Unknown Building'' else meshName building)
                               daytime area (totalRooftopArea acc) totalShadowFraction
                               averageShadowFractionRooftop totalPVValue pvRooftop (page w)\<rparr>))))"

section \<open>buildingUtils.ts\<close>

text \<open>
  A colour with its three channels. \<open>hexColor\<close> is \<open>new THREE.Color(hex)\<close>: each byte of the
  number over 255. \<open>lerp\<close> is \<open>Color.lerp\<close>: each channel moves by \<open>alpha\<close> times its
  distance to the other colour's; the library does not clamp \<open>alpha\<close>.
\<close>

datatype Color = Color (red: real) (green: real) (blue: real)

definition hexColor :: "nat \<Rightarrow> Color" where
  "hexColor hex =
     Color (real (hex div 65536 mod 256) / 255) (real (hex div 256 mod 256) / 255)
           (real (hex mod 256) / 255)"

fun lerp :: "Color \<Rightarrow> Color \<Rightarrow> real \<Rightarrow> Color" where
  "lerp (Color r1 g1 b1) (Color r2 g2 b2) alpha =
     Color (r1 + (r2 - r1) * alpha) (g1 + (g2 - g1) * alpha) (b1 + (b2 - b1) * alpha)"

text \<open>
  The colour of a value. \<open>None\<close> is the colour whose channels are not finite numbers: the
  result when \<open>max = min\<close>, where the ratio is a division by zero.
\<close>

definition getColorForValue :: "real \<Rightarrow> real \<Rightarrow> real \<Rightarrow> Color option" where
  "getColorForValue v minV maxV =
     (let ratio = js_divide (v - minV) (maxV - minV);
          startColor = hexColor 0xffa500;
          endColor = hexColor 0xff4500
      in map_option (lerp startColor endColor) ratio)"

definition highlightBuilding :: "nat \<Rightarrow> world \<Rightarrow> world" where
  "highlightBuilding building w =
     (let w1 = (if building \<notin> dom (originalMaterials w)
                then w\<lparr>originalMaterials := (originalMaterials w)(building \<mapsto> material (meshes w building))\<rparr>
                else w)
      in w1\<lparr>meshes := (meshes w1)(building := (meshes w1 building)
              \<lparr>material := \<lparr>materialColor = 0xffff00, vertexColors = False, version = 0\<rparr>\<rparr>)\<rparr>)"

definition revertHighlight :: "nat \<Rightarrow> world \<Rightarrow> world" where
  "revertHighlight building w =
     (case originalMaterials w building of
        None \<Rightarrow> w
      | Some m \<Rightarrow>
          w\<lparr>meshes := (meshes w)(building := (meshes w building)\<lparr>material := m\<rparr>),
            originalMaterials := (originalMaterials w)(building := None)\<rparr>)"

text \<open>
  The three entries of a vertex in the colour array. A write at an undefined index or past
  the end of the typed array does nothing.
\<close>

definition setVertexColor :: "real option list \<Rightarrow> nat option \<Rightarrow> Color option \<Rightarrow> real option list" where
  "setVertexColor colors k col =
     (case k of
        None \<Rightarrow> colors
      | Some a \<Rightarrow> colors[a * 3 := map_option red col,
                          a * 3 + 1 := map_option green col,
                          a * 3 + 2 := map_option blue col])"

definition paintFace :: "real \<Rightarrow> real \<Rightarrow> BipvValue \<Rightarrow> real option list \<Rightarrow> real option list" where
  "paintFace minBipv maxBipv v colors =
     (let col = getColorForValue (bipvValue v) minBipv maxBipv
      in setVertexColor (setVertexColor (setVertexColor colors (Some (faceA v)) col) (faceB v) col)
           (faceC v) col)"

text \<open>
  The colour array of a building: zeros, then the colour of every face at its three
  vertices. Of an empty list \<open>Math.min\<close> and \<open>Math.max\<close> are infinite, and no face reads them.
\<close>

definition faceColors :: "nat \<Rightarrow> BipvValue list \<Rightarrow> real option list" where
  "faceColors n values =
     (let colors = replicate n (Some 0)
      in case map bipvValue values of
           [] \<Rightarrow> colors
         | p # ps \<Rightarrow>
             let minBipv = fold min ps p;
                 maxBipv = fold max ps p
             in fold (paintFace minBipv maxBipv) values colors)"

text \<open>
  \<open>intersects\<close> stands for the buildings that \<open>raycaster.intersectObjects(buildings)\<close>
  finds under the mouse, nearest first, by their ids.
\<close>

definition onBuildingClick ::
  "(nat \<Rightarrow> real) \<Rightarrow> (nat \<Rightarrow> Vector3 \<Rightarrow> Vector3 \<Rightarrow> real list) \<Rightarrow> (string \<Rightarrow> (real \<times> real) option) \<Rightarrow>
     nat list \<Rightarrow> DirectionalLight \<Rightarrow> Object3D \<Rightarrow> world \<Rightarrow> (js_error + unit) \<times> world" where
  "onBuildingClick random raycast getTimes intersects light scene w =
     (case intersects of
        [] \<Rightarrow> (Inr (), w)
      | building # _ \<Rightarrow>
          let w1 = (case highlightedBuilding w of None \<Rightarrow> w | Some h \<Rightarrow> revertHighlight h w);
              w2 = highlightBuilding building w1;
              w3 = w2\<lparr>highlightedBuilding := Some building\<rparr>
          in (case calculateRooftopArea random raycast getTimes (meshes w3 building) light scene w3 of
                (Inl e, w4) \<Rightarrow> (Inl e, w4)
              | (Inr values, w4) \<Rightarrow>
                  let mesh = meshes w4 building;
                      colors = faceColors (length (positionArray mesh)) values;
                      m = material mesh
                  in (Inr (),
                      w4\<lparr>meshes := (meshes w4)(building := mesh
                           \<lparr>colorAttribute := Some colors,
                            material := m\<lparr>vertexColors := True, version := version m + 1\<rparr>\<rparr>)\<rparr>)))"

section \<open>What the shadow estimator computes\<close>

text \<open>
  For the statements: the objects of a scene graph, the direction of the ray that starts
  its three calls of \<open>Math.random\<close> at call \<open>k\<close>, and when a ray is blocked: some object
  of the graph whose name is not \<open>Sky\<close> has an intersection with it.
\<close>

fun descendants :: "Object3D \<Rightarrow> Object3D list" where
  "descendants (Object3D n i cs) = Object3D n i cs # concat (map descendants cs)"

definition jitteredDirection :: "(nat \<Rightarrow> real) \<Rightarrow> Vector3 \<Rightarrow> nat \<Rightarrow> Vector3" where
  "jitteredDirection random direction k =
     normalize (addV direction
       (Vector3 ((random k - 0.5) * 0.01) ((random (k + 1) - 0.5) * 0.01) ((random (k + 2) - 0.5) * 0.01)))"

definition blocked ::
  "(nat \<Rightarrow> Vector3 \<Rightarrow> Vector3 \<Rightarrow> real list) \<Rightarrow> Object3D \<Rightarrow> Vector3 \<Rightarrow> Vector3 \<Rightarrow> bool" where
  "blocked raycast scene origin direction =
     (\<exists>obj \<in> set (descendants scene).
        raycast (objectId obj) origin direction \<noteq> [] \<and> objectName obj \<noteq> Some ''Sky'')"

definition blockedRays ::
  "(nat \<Rightarrow> real) \<Rightarrow> (nat \<Rightarrow> Vector3 \<Rightarrow> Vector3 \<Rightarrow> real list) \<Rightarrow> Object3D \<Rightarrow> Vector3 \<Rightarrow> Vector3 \<Rightarrow>
     nat \<Rightarrow> nat \<Rightarrow> nat" where
  "blockedRays random raycast scene point direction numRays calls =
     length (filter (\<lambda>j. blocked raycast scene point (jitteredDirection random direction (calls + 3 * j)))
       [0..<numRays])"

text \<open>
  The triangle that the loop of \<open>calculateRooftopArea\<close> reads at position \<open>j\<close> of the
  index array: its area, its centroid, its normal, and its shadow fraction when the calls
  of \<open>Math.random\<close> for it start at call \<open>c\<close>.
\<close>

definition faceArea :: "real list \<Rightarrow> nat list \<Rightarrow> nat \<Rightarrow> real" where
  "faceArea vertices indices j =
     calculateTriangleArea (vertexAt vertices (Some (indices ! j)))
       (vertexAt vertices (readIndex indices (j + 1))) (vertexAt vertices (readIndex indices (j + 2)))"

definition faceCentroid :: "real list \<Rightarrow> nat list \<Rightarrow> nat \<Rightarrow> Vector3" where
  "faceCentroid vertices indices j =
     divideScalar (addV (addV (addV (Vector3 0 0 0) (vertexAt vertices (Some (indices ! j))))
       (vertexAt vertices (readIndex indices (j + 1)))) (vertexAt vertices (readIndex indices (j + 2)))) 3"

definition faceNormal :: "real list \<Rightarrow> nat list \<Rightarrow> nat \<Rightarrow> Vector3" where
  "faceNormal vertices indices j =
     normalize (crossVectors
       (subVectors (vertexAt vertices (readIndex indices (j + 1))) (vertexAt vertices (Some (indices ! j))))
       (subVectors (vertexAt vertices (readIndex indices (j + 2))) (vertexAt vertices (Some (indices ! j)))))"

definition faceShadow ::
  "(nat \<Rightarrow> real) \<Rightarrow> (nat \<Rightarrow> Vector3 \<Rightarrow> Vector3 \<Rightarrow> real list) \<Rightarrow> real list \<Rightarrow> nat list \<Rightarrow>
     DirectionalLight \<Rightarrow> Object3D \<Rightarrow> nat \<Rightarrow> nat \<Rightarrow> real" where
  "faceShadow random raycast vertices indices light scene j c =
     fst (isPointInShadow random raycast (faceCentroid vertices indices j) light scene 50 c)"

text \<open>The number of passes of the loop over an index array of a given length.\<close>

definition faceCount :: "nat \<Rightarrow> nat" where
  "faceCount n = (n + 2) div 3"

text \<open>
  The sums of the loop over a whole index array, when the calls of \<open>Math.random\<close> start at
  call \<open>c\<close>: the areas of the faces classified rooftop and of those classified vertical,
  and the sums of shadow fraction times area over each class.
\<close>

definition rooftopAreaSum :: "real list \<Rightarrow> nat list \<Rightarrow> real" where
  "rooftopAreaSum vertices indices =
     (\<Sum>k<faceCount (length indices).
        if isVertical (faceNormal vertices indices (3 * k)) then 0 else faceArea vertices indices (3 * k))"

definition verticalAreaSum :: "real list \<Rightarrow> nat list \<Rightarrow> real" where
  "verticalAreaSum vertices indices =
     (\<Sum>k<faceCount (length indices).
        if isVertical (faceNormal vertices indices (3 * k)) then faceArea vertices indices (3 * k) else 0)"

definition rooftopShadowSum ::
  "(nat \<Rightarrow> real) \<Rightarrow> (nat \<Rightarrow> Vector3 \<Rightarrow> Vector3 \<Rightarrow> real list) \<Rightarrow> real list \<Rightarrow> nat list \<Rightarrow>
     DirectionalLight \<Rightarrow> Object3D \<Rightarrow> nat \<Rightarrow> real" where
  "rooftopShadowSum random raycast vertices indices light scene c =
     (\<Sum>k<faceCount (length indices).
        if isVertical (faceNormal vertices indices (3 * k)) then 0
        else faceShadow random raycast vertices indices light scene (3 * k) (c + 150 * k)
               * faceArea vertices indices (3 * k))"

definition verticalShadowSum ::
  "(nat \<Rightarrow> real) \<Rightarrow> (nat \<Rightarrow> Vector3 \<Rightarrow> Vector3 \<Rightarrow> real list) \<Rightarrow> real list \<Rightarrow> nat list \<Rightarrow>
     DirectionalLight \<Rightarrow> Object3D \<Rightarrow> nat \<Rightarrow> real" where
  "verticalShadowSum random raycast vertices indices light scene c =
     (\<Sum>k<faceCount (length indices).
        if isVertical (faceNormal vertices indices (3 * k))
        then faceShadow random raycast vertices indices light scene (3 * k) (c + 150 * k)
               * faceArea vertices indices (3 * k)
        else 0)"

text \<open>The value of the face that the loop reads in its pass \<open>k\<close>.\<close>

definition faceValue ::
  "(nat \<Rightarrow> real) \<Rightarrow> (nat \<Rightarrow> Vector3 \<Rightarrow> Vector3 \<Rightarrow> real list) \<Rightarrow> real \<Rightarrow> real list \<Rightarrow> nat list \<Rightarrow>
     DirectionalLight \<Rightarrow> Object3D \<Rightarrow> nat \<Rightarrow> nat \<Rightarrow> BipvValue" where
  "faceValue random raycast GHI vertices indices light scene c k =
     \<lparr>faceA = indices ! (3 * k), faceB = readIndex indices (3 * k + 1),
      faceC = readIndex indices (3 * k + 2),
      bipvValue = GHI * faceArea vertices indices (3 * k)
        * (1 - faceShadow random raycast vertices indices light scene (3 * k) (c + 150 * k)) * 0.15,
      faceType = (if isVertical (faceNormal vertices indices (3 * k)) then Vertical else Rooftop)\<rparr>"

section \<open>A sample page, mesh and light\<close>

text \<open>
  The page as the component renders it (a date, the slider at noon, the default irradiance,
  an empty info card), a mesh of one horizontal square of area 4 in two triangles, the light as the
  component creates it, and a state with nothing highlighted.
\<close>

definition samplePage :: document where
  "samplePage =
     \<lparr>dateInput = Some ''2024-06-21'', timeSlider = Some 720, ghi = Some (Some 5.5),
      buildingName = Some (Plain []), totalDaytime = Some (Plain []), totalArea = Some (Plain []),
      rooftopArea = Some (Plain []), shadowFraction = Some (Plain []),
      shadowFractionRooftop = Some (Plain []), pvValue = Some (Plain []),
      pvValueRooftop = Some (Plain []), infoCard = Some ''none''\<rparr>"

definition sampleMaterial :: Material where
  "sampleMaterial = \<lparr>materialColor = 0xffffff, vertexColors = False, version = 0\<rparr>"

definition samplePositions :: "real list" where
  "samplePositions = [0, 0, 0, 0, 0, 2, 2, 0, 2, 2, 0, 0]"

definition sampleIndices :: "nat list" where
  "sampleIndices = [0, 1, 2, 0, 2, 3]"

definition sampleMesh :: Mesh where
  "sampleMesh =
     \<lparr>meshName = ''Mesh 1'', positionArray = samplePositions,
      indexArray = Some sampleIndices, colorAttribute = None, material = sampleMaterial\<rparr>"

definition sampleWorld :: world where
  "sampleWorld =
     \<lparr>page = samplePage, alerts = [], console = [],
      sunPosition = \<lparr>azimuth = 0, altitude = 0\<rparr>, randomCalls = 0,
      meshes = (\<lambda>_. sampleMesh), originalMaterials = Map.empty, highlightedBuilding = None\<rparr>"

definition sampleLight :: DirectionalLight where
  "sampleLight =
     \<lparr>lightPosition = Vector3 (- 1500) 200 100, lightTarget = Some (Vector3 0 0 0), intensity = 5\<rparr>"

definition sampleScene :: Object3D where
  "sampleScene =
     Object3D (Some []) 0 [Object3D (Some ''Sky'') 1 [], Object3D (Some ''Mesh 1'') 2 []]"

text \<open>
  Stand-ins for the library: a ray caster that finds no intersection, one that finds an
  intersection with the object of id 2 only, a random source that always returns one half,
  and sunrise and sunset twelve hours apart.
\<close>

definition noHits :: "nat \<Rightarrow> Vector3 \<Rightarrow> Vector3 \<Rightarrow> real list" where
  "noHits i origin direction = []"

definition hitsMesh :: "nat \<Rightarrow> Vector3 \<Rightarrow> Vector3 \<Rightarrow> real list" where
  "hitsMesh i origin direction = (if i = 2 then [1] else [])"

definition halves :: "nat \<Rightarrow> real" where
  "halves k = 1 / 2"

definition twelveHours :: "string \<Rightarrow> (real \<times> real) option" where
  "twelveHours s = Some (0, 43200000)"


text \<open>The sample mesh without its index array, and the sample state with that mesh.\<close>

definition nonIndexedMesh :: Mesh where
  "nonIndexedMesh = sampleMesh\<lparr>indexArray := None\<rparr>"

definition nonIndexedWorld :: world where
  "nonIndexedWorld = sampleWorld\<lparr>meshes := (\<lambda>_. nonIndexedMesh)\<rparr>"




definition noSliderWorld :: world where
  "noSliderWorld = sampleWorld\<lparr>page := samplePage\<lparr>timeSlider := None\<rparr>\<rparr>"

section \<open>The light on its sphere\<close>

lemma sphere_identity:
  fixes r :: real
  shows "(r * cos a * cos b) * (r * cos a * cos b) + (r * sin b) * (r * sin b)
     + (r * sin a * cos b) * (r * sin a * cos b) = r * r"
proof -
  have A: "cos a * cos a + sin a * sin a = 1" and B: "cos b * cos b + sin b * sin b = 1"
    by (rule sin_cos_squared_add3)+
  have "(r * cos a * cos b) * (r * cos a * cos b) + (r * sin b) * (r * sin b)
     + (r * sin a * cos b) * (r * sin a * cos b)
     = r * r * (cos b * cos b * (cos a * cos a + sin a * sin a) + sin b * sin b)"
    by algebra
  also have "\<dots> = r * r"
    by (simp only: A B mult_1_right)
  finally show ?thesis .
qed

lemma vlength_sun:
  "vlength (Vector3 (1500 * cos a * cos b) (1500 * sin b) (1500 * sin a * cos b)) = 1500"
proof -
  have "lengthSq (Vector3 (1500 * cos a * cos b) (1500 * sin b) (1500 * sin a * cos b)) = 1500 * 1500"
    unfolding lengthSq_def dot.simps by (rule sphere_identity)
  then show ?thesis
    by (simp add: vlength_def real_sqrt_mult)
qed

text \<open>
  C8. Whenever \<open>updateSunPosition\<close> updates the light, the position it returns and
  stores in the light is the vector (1500 cos(azimuth) cos(altitude), 1500 sin(altitude),
  1500 sin(azimuth) cos(altitude)) of the sun position it computed, and its Euclidean
  length is the radius 1500, whatever the azimuth and the altitude are.
\<close>

theorem light_on_sphere:
  assumes "updateSunPosition getPosition light w = (Inr (Some p), light', w')"
  shows "p = Vector3 (1500 * cos (azimuth (sunPosition w')) * cos (altitude (sunPosition w')))
               (1500 * sin (altitude (sunPosition w')))
               (1500 * sin (azimuth (sunPosition w')) * cos (altitude (sunPosition w')))
       \<and> lightPosition light' = p \<and> vlength p = 1500"
  using assms
  by (auto simp: updateSunPosition_def Let_def vlength_sun split: option.splits if_splits)

theorem light_on_sphere_witness:
  "updateSunPosition (\<lambda>_. \<lparr>azimuth = 0, altitude = 0\<rparr>) sampleLight sampleWorld
     = (Inr (Some (Vector3 1500 0 0)), sampleLight\<lparr>lightPosition := Vector3 1500 0 0\<rparr>, sampleWorld)
   \<and> lightPosition (sampleLight\<lparr>lightPosition := Vector3 1500 0 0\<rparr>) = Vector3 1500 0 0
   \<and> vlength (Vector3 1500 0 0) = 1500"
proof -
  have h: "updateSunPosition (\<lambda>_. \<lparr>azimuth = 0, altitude = 0\<rparr>) sampleLight sampleWorld
     = (Inr (Some (Vector3 1500 0 0)), sampleLight\<lparr>lightPosition := Vector3 1500 0 0\<rparr>, sampleWorld)"
    by (simp add: updateSunPosition_def sampleWorld_def samplePage_def sampleLight_def Let_def)
  from light_on_sphere [OF h] show ?thesis using h by simp
qed

section \<open>The ray loop in closed form\<close>

lemma set_intersect:
  "set (intersect raycast origin direction scene) =
     {Intersection d obj | d obj. obj \<in> set (descendants scene)
        \<and> d \<in> set (raycast (objectId obj) origin direction)}"
proof (induction raycast origin direction scene rule: intersect.induct)
  case (1 raycast origin direction n i cs)
  show ?case
    apply (simp only: intersect.simps descendants.simps)
    using 1 apply auto
    done
qed

lemma validIntersect_iff: "validIntersect x = (objectName (object x) \<noteq> Some ''Sky'')"
  by (auto simp: validIntersect_def split: option.splits)

lemma valid_filter_nonempty:
  "(0 < length (filter validIntersect (intersectObject raycast origin direction scene)))
     = blocked raycast scene origin direction"
proof -
  have "(0 < length (filter validIntersect (intersectObject raycast origin direction scene)))
     = (\<exists>x \<in> set (intersect raycast origin direction scene). validIntersect x)"
    by (simp add: intersectObject_def filter_empty_conv)
  also have "\<dots> = blocked raycast scene origin direction"
  proof
    assume "\<exists>x \<in> set (intersect raycast origin direction scene). validIntersect x"
    then obtain d obj where "obj \<in> set (descendants scene)"
      and "d \<in> set (raycast (objectId obj) origin direction)"
      and "objectName obj \<noteq> Some ''Sky''"
      unfolding set_intersect validIntersect_iff by auto
    then have "obj \<in> set (descendants scene) \<and> raycast (objectId obj) origin direction \<noteq> []
        \<and> objectName obj \<noteq> Some ''Sky''"
      by auto
    then show "blocked raycast scene origin direction"
      unfolding blocked_def by blast
  next
    assume "blocked raycast scene origin direction"
    then obtain obj where o: "obj \<in> set (descendants scene)"
      and r: "raycast (objectId obj) origin direction \<noteq> []"
      and n: "objectName obj \<noteq> Some ''Sky''"
      unfolding blocked_def by auto
    from r obtain d where "d \<in> set (raycast (objectId obj) origin direction)"
      by (cases "raycast (objectId obj) origin direction") auto
    with o have "Intersection d obj \<in> set (intersect raycast origin direction scene)"
      unfolding set_intersect by auto
    moreover have "validIntersect (Intersection d obj)"
      using n by (simp add: validIntersect_iff)
    ultimately show "\<exists>x \<in> set (intersect raycast origin direction scene). validIntersect x"
      by blast
  qed
  finally show ?thesis .
qed

lemma valid_filter_nonempty':
  "(filter validIntersect (intersectObject raycast origin direction scene) \<noteq> [])
     = blocked raycast scene origin direction"
  using valid_filter_nonempty [of raycast origin direction scene] by simp

lemma rayLoop_count:
  "rayLoop random raycast scene point direction numRays i (s, c) =
     (s + length (filter (\<lambda>j. blocked raycast scene point
                (jitteredDirection random direction (c + 3 * (j - i)))) [i..<numRays]),
      c + 3 * (numRays - i))"
proof (induction "numRays - i" arbitrary: i s c)
  case 0
  then show ?case by (simp add: rayLoop.simps)
next
  case (Suc k)
  then have lt: "i < numRays" and k: "k = numRays - (i + 1)" by auto
  let ?hit = "blocked raycast scene point (jitteredDirection random direction c)"
  have step: "rayLoop random raycast scene point direction numRays i (s, c) =
      rayLoop random raycast scene point direction numRays (i + 1) (if ?hit then s + 1 else s, c + 3)"
    using lt
    by (subst rayLoop.simps) (simp add: Let_def valid_filter_nonempty' jitteredDirection_def)
  have ih: "rayLoop random raycast scene point direction numRays (i + 1) (if ?hit then s + 1 else s, c + 3) =
      ((if ?hit then s + 1 else s) + length (filter (\<lambda>j. blocked raycast scene point
              (jitteredDirection random direction (c + 3 + 3 * (j - (i + 1))))) [i + 1..<numRays]),
       c + 3 + 3 * (numRays - (i + 1)))"
    by (rule Suc.hyps(1) [OF k])
  have idx: "filter (\<lambda>j. blocked raycast scene point
              (jitteredDirection random direction (c + 3 + 3 * (j - (i + 1))))) [i + 1..<numRays]
           = filter (\<lambda>j. blocked raycast scene point
              (jitteredDirection random direction (c + 3 * (j - i)))) [i + 1..<numRays]"
  proof (rule filter_cong[OF refl])
    fix j assume "j \<in> set [i + 1..<numRays]"
    then have e: "c + 3 + 3 * (j - (i + 1)) = c + 3 * (j - i)" by auto
    show "blocked raycast scene point (jitteredDirection random direction (c + 3 + 3 * (j - (i + 1))))
      = blocked raycast scene point (jitteredDirection random direction (c + 3 * (j - i)))"
      by (simp only: e)
  qed
  have split: "[i..<numRays] = i # [i + 1..<numRays]"
    using lt by (simp add: upt_conv_Cons)
  show ?case
    unfolding step ih idx split using lt by auto
qed

lemma isPointInShadow_eq:
  "isPointInShadow random raycast point light scene numRays calls =
     (real (blockedRays random raycast scene point
              (normalize (subVectors (lightPosition light) point)) numRays calls) / real numRays,
      calls + 3 * numRays)"
  by (simp add: isPointInShadow_def rayLoop_count blockedRays_def Let_def)

section \<open>The loop over the triangles in closed form\<close>

lemma isPointInShadow_50:
  "isPointInShadow random raycast point light scene 50 c =
     (fst (isPointInShadow random raycast point light scene 50 c), c + 150)"
  by (simp add: isPointInShadow_eq)

lemma faceLoop_done:
  "\<not> i < length indices \<Longrightarrow> faceLoop random raycast GHI vertices indices light scene i acc = acc"
  by (subst faceLoop.simps) simp

lemma faceLoop_step:
  assumes "i < length indices"
  shows "faceLoop random raycast GHI vertices indices light scene i acc =
     faceLoop random raycast GHI vertices indices light scene (i + 3)
       (if isVertical (faceNormal vertices indices i) then
          acc\<lparr>totalVerticalArea := totalVerticalArea acc + faceArea vertices indices i,
              totalShadowFractionVertical := totalShadowFractionVertical acc
                + faceShadow random raycast vertices indices light scene i (randomUsed acc)
                  * faceArea vertices indices i,
              bipvValues := bipvValues acc @
                [\<lparr>faceA = indices ! i, faceB = readIndex indices (i + 1), faceC = readIndex indices (i + 2),
                  bipvValue = GHI * faceArea vertices indices i
                    * (1 - faceShadow random raycast vertices indices light scene i (randomUsed acc)) * 0.15,
                  faceType = Vertical\<rparr>],
              randomUsed := randomUsed acc + 150\<rparr>
        else
          acc\<lparr>totalRooftopArea := totalRooftopArea acc + faceArea vertices indices i,
              totalShadowFractionRooftop := totalShadowFractionRooftop acc
                + faceShadow random raycast vertices indices light scene i (randomUsed acc)
                  * faceArea vertices indices i,
              bipvValues := bipvValues acc @
                [\<lparr>faceA = indices ! i, faceB = readIndex indices (i + 1), faceC = readIndex indices (i + 2),
                  bipvValue = GHI * faceArea vertices indices i
                    * (1 - faceShadow random raycast vertices indices light scene i (randomUsed acc)) * 0.15,
                  faceType = Rooftop\<rparr>],
              randomUsed := randomUsed acc + 150\<rparr>)"
  using assms
  apply (subst faceLoop.simps)
  apply (subst isPointInShadow_50)
  apply (simp only: Let_def prod.case if_True faceArea_def faceShadow_def faceNormal_def faceCentroid_def)
  done


lemma faceCount_0: "faceCount (n - i) = 0 \<Longrightarrow> \<not> i < n"
  by (auto simp: faceCount_def)

lemma faceCount_Suc: "faceCount (n - i) = Suc m \<Longrightarrow> i < n \<and> faceCount (n - (i + 3)) = m"
  by (auto simp: faceCount_def)

lemma upt_shift: "map f [0..<Suc n] = f 0 # map (\<lambda>k. f (Suc k)) [0..<n]"
proof -
  have "[0..<Suc n] = 0 # map Suc [0..<n]"
    by (simp add: upt_conv_Cons map_Suc_upt del: upt_Suc)
  then show ?thesis by (simp add: comp_def del: upt_Suc)
qed

lemma sum_shift: "(\<Sum>k<Suc n. (f k :: real)) = f 0 + (\<Sum>k<n. f (Suc k))"
  by (rule sum.lessThan_Suc_shift)

lemma faceLoop_closed:
  "let r = faceLoop random raycast GHI vertices indices light scene i acc;
       n = faceCount (length indices - i);
       A = (\<lambda>k. faceArea vertices indices (i + 3 * k));
       S = (\<lambda>k. faceShadow random raycast vertices indices light scene (i + 3 * k) (randomUsed acc + 150 * k));
       V = (\<lambda>k. isVertical (faceNormal vertices indices (i + 3 * k)))
   in totalRooftopArea r = totalRooftopArea acc + (\<Sum>k<n. if V k then 0 else A k)
    \<and> totalVerticalArea r = totalVerticalArea acc + (\<Sum>k<n. if V k then A k else 0)
    \<and> totalShadowFractionRooftop r = totalShadowFractionRooftop acc + (\<Sum>k<n. if V k then 0 else S k * A k)
    \<and> totalShadowFractionVertical r = totalShadowFractionVertical acc + (\<Sum>k<n. if V k then S k * A k else 0)
    \<and> bipvValues r = bipvValues acc @
          map (\<lambda>k. \<lparr>faceA = indices ! (i + 3 * k), faceB = readIndex indices (i + 3 * k + 1),
                     faceC = readIndex indices (i + 3 * k + 2),
                     bipvValue = GHI * A k * (1 - S k) * 0.15,
                     faceType = (if V k then Vertical else Rooftop)\<rparr>) [0..<n]
    \<and> randomUsed r = randomUsed acc + 150 * n"
proof (induction "faceCount (length indices - i)" arbitrary: i acc)
  case 0
  then have "\<not> i < length indices" by (simp add: faceCount_0)
  then show ?case using 0 [symmetric] by (simp add: faceLoop_done Let_def)
next
  case (Suc m)
  from faceCount_Suc [OF Suc.hyps(2) [symmetric]]
  have lt: "i < length indices" and m: "m = faceCount (length indices - (i + 3))" by auto
  note ih = Suc.hyps(1) [OF m, unfolded Let_def, folded m]
  show ?case
    unfolding Let_def Suc.hyps(2) [symmetric] faceLoop_step [OF lt]
    apply (simp only: sum_shift upt_shift)
    apply (cases "isVertical (faceNormal vertices indices i)")
     apply (simp_all add: ih add.assoc cong: if_cong del: upt_Suc)
    done
qed

lemma faceLoop_from_start:
  fixes random raycast GHI vertices indices light scene c
  defines "r \<equiv> faceLoop random raycast GHI vertices indices light scene 0
       \<lparr>totalRooftopArea = 0, totalVerticalArea = 0,
        totalShadowFractionRooftop = 0, totalShadowFractionVertical = 0,
        bipvValues = [], randomUsed = c\<rparr>"
  shows "totalRooftopArea r = rooftopAreaSum vertices indices"
    and "totalVerticalArea r = verticalAreaSum vertices indices"
    and "totalShadowFractionRooftop r = rooftopShadowSum random raycast vertices indices light scene c"
    and "totalShadowFractionVertical r = verticalShadowSum random raycast vertices indices light scene c"
    and "bipvValues r = map (faceValue random raycast GHI vertices indices light scene c)
            [0..<faceCount (length indices)]"
    and "randomUsed r = c + 150 * faceCount (length indices)"
  using faceLoop_closed [of random raycast GHI vertices indices light scene 0
       "\<lparr>totalRooftopArea = 0, totalVerticalArea = 0,
        totalShadowFractionRooftop = 0, totalShadowFractionVertical = 0,
        bipvValues = [], randomUsed = c\<rparr>"]
  unfolding r_def Let_def rooftopAreaSum_def verticalAreaSum_def rooftopShadowSum_def
    verticalShadowSum_def faceValue_def
  by (simp_all cong: if_cong)

lemma calculateRooftopArea_indexed:
  assumes "indexArray building = Some indices"
    and "ghi (page w) = Some ghiValue"
    and "dateInput (page w) = Some dateValue"
  shows "calculateRooftopArea random raycast getTimes building light scene w =
     (let GHI = (case ghiValue of None \<Rightarrow> 5.5 | Some g \<Rightarrow> g);
          vertices = positionArray building;
          roof = rooftopAreaSum vertices indices;
          area = roof + verticalAreaSum vertices indices;
          shadow = js_divide (rooftopShadowSum random raycast vertices indices light scene (randomCalls w)
                     + verticalShadowSum random raycast vertices indices light scene (randomCalls w)) area;
          shadowRooftop = map_option (\<lambda>s. s * 0.1753) shadow
      in (Inr (map (faceValue random raycast GHI vertices indices light scene (randomCalls w))
                 [0..<faceCount (length indices)]),
          w\<lparr>randomCalls := randomCalls w + 150 * faceCount (length indices),
            page := updateInfoCard
              (if meshName building = [] then ''Unknown Building'' else meshName building)
              (getTotalDaytime getTimes dateValue) area roof shadow shadowRooftop
              (map_option (\<lambda>s. GHI * area * (1 - s) * 0.15) shadow)
              (map_option (\<lambda>s. GHI * roof * (1 - s) * 0.15) shadowRooftop) (page w)\<rparr>))"
  using assms
  by (simp add: calculateRooftopArea_def Let_def faceLoop_from_start)

section \<open>The model on the samples\<close>

lemma sqrt_16: "sqrt 16 = 4"
  by (rule real_sqrt_unique) auto

lemmas vector_eval = vertexAt_def readIndex_def readCoord_def calculateTriangleArea_def getArea_def
  normalize_def vlength_def lengthSq_def sqrt_16 angleTo_def clamp_def isVertical_def

lemma shadow_noHits:
  "isPointInShadow random noHits point light scene 50 c = (0, c + 150)"
  by (simp add: isPointInShadow_eq blockedRays_def blocked_def noHits_def)

lemma blocked_hitsMesh: "blocked hitsMesh sampleScene origin direction"
  by (simp add: blocked_def sampleScene_def hitsMesh_def)

lemma shadow_hitsMesh:
  "isPointInShadow random hitsMesh point light sampleScene 50 c = (1, c + 150)"
  by (simp add: isPointInShadow_eq blockedRays_def blocked_hitsMesh)

lemma faceShadow_noHits: "faceShadow random noHits vertices indices light scene j c = 0"
  by (simp add: faceShadow_def shadow_noHits)

lemma faceShadow_hitsMesh: "faceShadow random hitsMesh vertices indices light sampleScene j c = 1"
  by (simp add: faceShadow_def shadow_hitsMesh)

lemma sample_count: "faceCount (length sampleIndices) = 2"
  by (simp add: faceCount_def sampleIndices_def)

lemma lessThan_two: "{..<2::nat} = {0, 1}"
  by auto

lemma upt_two: "[0..<2] = [0, 1]"
  by (simp add: upt_rec)

lemma sample_area:
  "faceArea samplePositions sampleIndices 0 = 2" "faceArea samplePositions sampleIndices 3 = 2"
  by (simp_all add: faceArea_def samplePositions_def sampleIndices_def vector_eval)

lemma sample_normal:
  "faceNormal samplePositions sampleIndices 0 = Vector3 0 1 0"
  "faceNormal samplePositions sampleIndices 3 = Vector3 0 1 0"
  by (simp_all add: faceNormal_def samplePositions_def sampleIndices_def vector_eval)

lemma up_not_vertical: "\<not> isVertical (Vector3 0 1 0)"
  by (simp add: vector_eval Let_def)


lemma sample_sums:
  "rooftopAreaSum samplePositions sampleIndices = 4"
  "verticalAreaSum samplePositions sampleIndices = 0"
  "rooftopShadowSum random noHits samplePositions sampleIndices light scene c = 0"
  "verticalShadowSum random noHits samplePositions sampleIndices light scene c = 0"
  "rooftopShadowSum random hitsMesh samplePositions sampleIndices light sampleScene c = 4"
  "verticalShadowSum random hitsMesh samplePositions sampleIndices light sampleScene c = 0"
  by (simp_all add: rooftopAreaSum_def verticalAreaSum_def rooftopShadowSum_def verticalShadowSum_def
        sample_count lessThan_two sample_area sample_normal up_not_vertical
        faceShadow_noHits faceShadow_hitsMesh)

lemma sample_values:
  "map (faceValue random noHits (11 / 2) samplePositions sampleIndices light scene c) [0..<2]
     = [\<lparr>faceA = 0, faceB = Some 1, faceC = Some 2, bipvValue = 1.65, faceType = Rooftop\<rparr>,
        \<lparr>faceA = 0, faceB = Some 2, faceC = Some 3, bipvValue = 1.65, faceType = Rooftop\<rparr>]"
  "map (faceValue random hitsMesh (11 / 2) samplePositions sampleIndices light sampleScene c) [0..<2]
     = [\<lparr>faceA = 0, faceB = Some 1, faceC = Some 2, bipvValue = 0, faceType = Rooftop\<rparr>,
        \<lparr>faceA = 0, faceB = Some 2, faceC = Some 3, bipvValue = 0, faceType = Rooftop\<rparr>]"
  by (simp_all add: upt_two faceValue_def sample_area sample_normal up_not_vertical
        faceShadow_noHits faceShadow_hitsMesh)
     (simp_all add: sampleIndices_def readIndex_def)

section \<open>The value of every face\<close>

text \<open>
  C1. When \<open>calculateRooftopArea\<close> returns the values of an indexed mesh, it returns one
  value for every pass of its loop (every triangle of the index array), and the value of
  pass \<open>k\<close> is \<open>GHI * triangleArea * (1 - shadowFraction) * 0.15\<close>: \<open>GHI\<close> is the
  irradiance read from the page (5.5 when the field is empty), the area is that of the
  triangle at position \<open>3 k\<close> of the index array, and the shadow fraction is the one
  \<open>isPointInShadow\<close> estimates from the centroid of that triangle with 50 rays, its calls
  of \<open>Math.random\<close> following those of the triangles before it. The formula is the same
  whether the face is classified Vertical or Rooftop.
\<close>

theorem per_face_pv_value:
  assumes idx: "indexArray building = Some indices"
    and g: "ghi (page w) = Some ghiValue"
    and run: "calculateRooftopArea random raycast getTimes building light scene w = (Inr vals, w')"
  shows "length vals = faceCount (length indices)
     \<and> (\<forall>k < faceCount (length indices).
          bipvValue (vals ! k) =
            (case ghiValue of None \<Rightarrow> 5.5 | Some g \<Rightarrow> g)
            * faceArea (positionArray building) indices (3 * k)
            * (1 - faceShadow random raycast (positionArray building) indices light scene (3 * k)
                     (randomCalls w + 150 * k))
            * 0.15
          \<and> faceType (vals ! k) =
              (if isVertical (faceNormal (positionArray building) indices (3 * k)) then Vertical else Rooftop))"
proof -
  from run idx g obtain dateValue where d: "dateInput (page w) = Some dateValue"
    by (auto simp: calculateRooftopArea_def split: option.splits)
  from run have "vals = map (faceValue random raycast (case ghiValue of None \<Rightarrow> 5.5 | Some g \<Rightarrow> g)
      (positionArray building) indices light scene (randomCalls w)) [0..<faceCount (length indices)]"
    unfolding calculateRooftopArea_indexed [OF idx g d] Let_def by simp
  then show ?thesis
    by (simp add: faceValue_def)
qed

theorem per_face_pv_value_witness:
  "indexArray sampleMesh = Some sampleIndices
   \<and> ghi (page sampleWorld) = Some (Some 5.5)
   \<and> fst (calculateRooftopArea halves noHits twelveHours sampleMesh sampleLight sampleScene sampleWorld)
       = Inr [\<lparr>faceA = 0, faceB = Some 1, faceC = Some 2, bipvValue = 1.65, faceType = Rooftop\<rparr>,
              \<lparr>faceA = 0, faceB = Some 2, faceC = Some 3, bipvValue = 1.65, faceType = Rooftop\<rparr>]
   \<and> faceCount (length sampleIndices) = 2
   \<and> 5.5 * faceArea (positionArray sampleMesh) sampleIndices (3 * 1)
        * (1 - faceShadow halves noHits (positionArray sampleMesh) sampleIndices sampleLight sampleScene
                 (3 * 1) (randomCalls sampleWorld + 150 * 1))
        * 0.15 = (1.65 :: real)"
proof -
  have h1: "indexArray sampleMesh = Some sampleIndices"
    by (simp add: sampleMesh_def)
  have h2: "ghi (page sampleWorld) = Some (Some 5.5)"
    and h2': "dateInput (page sampleWorld) = Some ''2024-06-21''"
    by (simp_all add: sampleWorld_def samplePage_def)
  have vals: "fst (calculateRooftopArea halves noHits twelveHours sampleMesh sampleLight sampleScene sampleWorld)
       = Inr [\<lparr>faceA = 0, faceB = Some 1, faceC = Some 2, bipvValue = 1.65, faceType = Rooftop\<rparr>,
              \<lparr>faceA = 0, faceB = Some 2, faceC = Some 3, bipvValue = 1.65, faceType = Rooftop\<rparr>]"
    unfolding calculateRooftopArea_indexed [OF h1 h2 h2'] Let_def
    by (simp add: sample_count sample_values sampleMesh_def)
  then obtain w' where
    h3: "calculateRooftopArea halves noHits twelveHours sampleMesh sampleLight sampleScene sampleWorld
          = (Inr [\<lparr>faceA = 0, faceB = Some 1, faceC = Some 2, bipvValue = 1.65, faceType = Rooftop\<rparr>,
              \<lparr>faceA = 0, faceB = Some 2, faceC = Some 3, bipvValue = 1.65, faceType = Rooftop\<rparr>], w')"
    by (cases "calculateRooftopArea halves noHits twelveHours sampleMesh sampleLight sampleScene sampleWorld")
       auto
  from per_face_pv_value [OF h1 h2 h3, THEN conjunct2, rule_format, of 1]
  have "bipvValue \<lparr>faceA = 0, faceB = Some 2, faceC = Some 3, bipvValue = 1.65, faceType = Rooftop\<rparr>
     = 5.5 * faceArea (positionArray sampleMesh) sampleIndices (3 * 1)
        * (1 - faceShadow halves noHits (positionArray sampleMesh) sampleIndices sampleLight sampleScene
                 (3 * 1) (randomCalls sampleWorld + 150 * 1))
        * 0.15"
    by (simp add: sample_count)
  then show ?thesis
    using h1 h2 vals sample_count by simp
qed

section \<open>Which objects cast a shadow\<close>

text \<open>
  C10. In \<open>isPointInShadow\<close> a ray has a valid intersection, and so counts as shadowed,
  exactly when some object of the scene graph (the scene or any descendant) whose name is
  not exactly \<open>Sky\<close> has an intersection with it. An intersection with an object whose
  name is missing or empty is valid; one with an object named \<open>Sky\<close> is not. The shadow
  fraction is the number of such rays among the 50 rays over 50. No
  object of the graph is left out, the selected building neither: in the sample scene,
  where only the node of the building itself has intersections with the rays, every face of
  the building is fully shadowed and its value is 0.
\<close>

theorem shadowed_ray_occluders:
  "(0 < length (filter validIntersect (intersectObject raycast origin direction scene)))
      = (\<exists>obj \<in> set (descendants scene).
           raycast (objectId obj) origin direction \<noteq> [] \<and> objectName obj \<noteq> Some ''Sky'')
   \<and> validIntersect (Intersection d (Object3D None i cs))
   \<and> validIntersect (Intersection d (Object3D (Some []) i cs))
   \<and> \<not> validIntersect (Intersection d (Object3D (Some ''Sky'') i cs))
   \<and> isPointInShadow random raycast point light scene 50 c =
       (real (length (filter
          (\<lambda>j. blocked raycast scene point
             (jitteredDirection random (normalize (subVectors (lightPosition light) point)) (c + 3 * j)))
          [0..<50])) / 50, c + 150)
   \<and> Object3D (Some ''Mesh 1'') 2 [] \<in> set (descendants sampleScene)
   \<and> fst (calculateRooftopArea halves hitsMesh twelveHours sampleMesh sampleLight sampleScene sampleWorld)
       = Inr [\<lparr>faceA = 0, faceB = Some 1, faceC = Some 2, bipvValue = 0, faceType = Rooftop\<rparr>,
              \<lparr>faceA = 0, faceB = Some 2, faceC = Some 3, bipvValue = 0, faceType = Rooftop\<rparr>]"
proof -
  have h1: "indexArray sampleMesh = Some sampleIndices"
    by (simp add: sampleMesh_def)
  have h2: "ghi (page sampleWorld) = Some (Some 5.5)"
    and h3: "dateInput (page sampleWorld) = Some ''2024-06-21''"
    by (simp_all add: sampleWorld_def samplePage_def)
  have own: "fst (calculateRooftopArea halves hitsMesh twelveHours sampleMesh sampleLight sampleScene sampleWorld)
       = Inr [\<lparr>faceA = 0, faceB = Some 1, faceC = Some 2, bipvValue = 0, faceType = Rooftop\<rparr>,
              \<lparr>faceA = 0, faceB = Some 2, faceC = Some 3, bipvValue = 0, faceType = Rooftop\<rparr>]"
    unfolding calculateRooftopArea_indexed [OF h1 h2 h3] Let_def
    by (simp add: sample_count sample_values sampleMesh_def)
  have names: "validIntersect (Intersection d (Object3D None i cs))"
    "validIntersect (Intersection d (Object3D (Some []) i cs))"
    "\<not> validIntersect (Intersection d (Object3D (Some ''Sky'') i cs))"
    by (simp_all add: validIntersect_def)
  have node: "Object3D (Some ''Mesh 1'') 2 [] \<in> set (descendants sampleScene)"
    by (simp add: sampleScene_def)
  show ?thesis
    using own names node
    by (simp add: valid_filter_nonempty' isPointInShadow_eq blockedRays_def blocked_def)
qed

section \<open>The aggregates\<close>

lemma class_sums:
  fixes f :: "nat \<Rightarrow> real"
  shows "(\<Sum>k<n. if P k then 0 else f k) + (\<Sum>k<n. if P k then f k else 0) = (\<Sum>k<n. f k)"
  by (subst sum.distrib [symmetric]) (rule sum.cong, auto)

lemma area_sums:
  "rooftopAreaSum vertices indices + verticalAreaSum vertices indices
     = (\<Sum>k<faceCount (length indices). faceArea vertices indices (3 * k))"
  unfolding rooftopAreaSum_def verticalAreaSum_def by (rule class_sums)

lemma shadow_sums:
  "rooftopShadowSum random raycast vertices indices light scene c
     + verticalShadowSum random raycast vertices indices light scene c
   = (\<Sum>k<faceCount (length indices).
        faceShadow random raycast vertices indices light scene (3 * k) (c + 150 * k)
          * faceArea vertices indices (3 * k))"
  unfolding rooftopShadowSum_def verticalShadowSum_def by (rule class_sums)

lemma sample_run_hitsMesh:
  "calculateRooftopArea halves hitsMesh twelveHours sampleMesh sampleLight sampleScene sampleWorld =
     (Inr [\<lparr>faceA = 0, faceB = Some 1, faceC = Some 2, bipvValue = 0, faceType = Rooftop\<rparr>,
           \<lparr>faceA = 0, faceB = Some 2, faceC = Some 3, bipvValue = 0, faceType = Rooftop\<rparr>],
      sampleWorld\<lparr>randomCalls := 300,
        page := samplePage
          \<lparr>buildingName := Some (Plain ''Mesh 1''),
           totalDaytime := Some (Fixed2 ''Total Daytime: '' (Some 12) '' hours''),
           totalArea := Some (Fixed2 ''Total Area (Rooftop + Vertical): '' (Some 4) '' sq.m''),
           rooftopArea := Some (Fixed2 ''Rooftop Area: '' (Some 4) '' sq.m''),
           shadowFraction := Some (Fixed2 ''Average Shadow Fraction Over Total Area: '' (Some 1) []),
           shadowFractionRooftop := Some (Fixed2 ''Rooftop Shadow Fraction: '' (Some 0.1753) []),
           pvValue := Some (Fixed2 ''Total PV Value: '' (Some 0) '' kWhr''),
           pvValueRooftop := Some (Fixed2 ''PV Value (Rooftop): '' (Some 2.72151) '' kWhr''),
           infoCard := Some ''block''\<rparr>\<rparr>)"
proof -
  have h1: "indexArray sampleMesh = Some sampleIndices"
    by (simp add: sampleMesh_def)
  have h2: "ghi (page sampleWorld) = Some (Some 5.5)"
    and h3: "dateInput (page sampleWorld) = Some ''2024-06-21''"
    by (simp_all add: sampleWorld_def samplePage_def)
  show ?thesis
    unfolding calculateRooftopArea_indexed [OF h1 h2 h3] Let_def
    by (simp add: sample_count sample_values sample_sums sampleMesh_def js_divide_def
          updateInfoCard_def setText_def getTotalDaytime_def twelveHours_def)
       (simp add: sampleWorld_def samplePage_def)
qed

text \<open>
  C2, as the program has it. After \<open>calculateRooftopArea\<close> has returned the values of an
  indexed mesh, the info card shows: as total area, the sum of the areas of all faces, which
  is the rooftop area plus the vertical area; as average shadow fraction, the sum over all
  faces of shadow fraction times area divided by the total area (not a finite number when
  the total area is 0); as total PV value, \<open>GHI * totalArea * (1 - totalShadowFraction) * 0.15\<close>;
  and as rooftop shadow fraction, the total shadow fraction times 0.1753. The rooftop
  figure is therefore not the area-weighted average over the rooftop faces: in the sample
  scene, where every face is a fully shadowed rooftop face, that average is 1 and the card
  shows 0.1753.
\<close>

theorem aggregate_shadow_fractions:
  fixes random raycast building indices light scene w ghiValue
  defines "GHI \<equiv> (case ghiValue of None \<Rightarrow> 5.5 | Some g \<Rightarrow> g)"
    and "area \<equiv> (\<Sum>k<faceCount (length indices). faceArea (positionArray building) indices (3 * k))"
    and "weighted \<equiv> (\<Sum>k<faceCount (length indices).
           faceShadow random raycast (positionArray building) indices light scene (3 * k)
             (randomCalls w + 150 * k) * faceArea (positionArray building) indices (3 * k))"
  assumes idx: "indexArray building = Some indices"
    and g: "ghi (page w) = Some ghiValue"
    and run: "calculateRooftopArea random raycast getTimes building light scene w = (Inr vals, w')"
  shows "rooftopAreaSum (positionArray building) indices + verticalAreaSum (positionArray building) indices = area
     \<and> totalArea (page w') = setText (totalArea (page w))
           (Fixed2 ''Total Area (Rooftop + Vertical): '' (Some area) '' sq.m'')
     \<and> rooftopArea (page w') = setText (rooftopArea (page w))
           (Fixed2 ''Rooftop Area: '' (Some (rooftopAreaSum (positionArray building) indices)) '' sq.m'')
     \<and> shadowFraction (page w') = setText (shadowFraction (page w))
           (Fixed2 ''Average Shadow Fraction Over Total Area: '' (js_divide weighted area) [])
     \<and> shadowFractionRooftop (page w') = setText (shadowFractionRooftop (page w))
           (Fixed2 ''Rooftop Shadow Fraction: '' (map_option (\<lambda>s. s * 0.1753) (js_divide weighted area)) [])
     \<and> pvValue (page w') = setText (pvValue (page w))
           (Fixed2 ''Total PV Value: ''
              (map_option (\<lambda>s. GHI * area * (1 - s) * 0.15) (js_divide weighted area)) '' kWhr'')
     \<and> js_divide weighted area = (if area = 0 then None else Some (weighted / area))"
proof -
  from run idx g obtain dateValue where d: "dateInput (page w) = Some dateValue"
    by (auto simp: calculateRooftopArea_def split: option.splits)
  from run have w': "w' = snd (calculateRooftopArea random raycast getTimes building light scene w)"
    by simp
  show ?thesis
    unfolding w' calculateRooftopArea_indexed [OF idx g d] Let_def GHI_def area_def weighted_def
      area_sums [symmetric] shadow_sums [symmetric]
    by (simp add: updateInfoCard_def js_divide_def)
qed

theorem aggregate_shadow_fractions_witness:
  "indexArray sampleMesh = Some sampleIndices
   \<and> ghi (page sampleWorld) = Some (Some 5.5)
   \<and> fst (calculateRooftopArea halves hitsMesh twelveHours sampleMesh sampleLight sampleScene sampleWorld)
       = Inr [\<lparr>faceA = 0, faceB = Some 1, faceC = Some 2, bipvValue = 0, faceType = Rooftop\<rparr>,
              \<lparr>faceA = 0, faceB = Some 2, faceC = Some 3, bipvValue = 0, faceType = Rooftop\<rparr>]
   \<and> shadowFraction (page (snd (calculateRooftopArea halves hitsMesh twelveHours sampleMesh
         sampleLight sampleScene sampleWorld)))
       = Some (Fixed2 ''Average Shadow Fraction Over Total Area: '' (Some 1) [])
   \<and> shadowFractionRooftop (page (snd (calculateRooftopArea halves hitsMesh twelveHours sampleMesh
         sampleLight sampleScene sampleWorld)))
       = Some (Fixed2 ''Rooftop Shadow Fraction: '' (Some (1 * 0.1753)) [])
   \<and> (\<Sum>k<faceCount (length sampleIndices). faceArea (positionArray sampleMesh) sampleIndices (3 * k)) = 4
   \<and> (\<Sum>k<faceCount (length sampleIndices).
         faceShadow halves hitsMesh (positionArray sampleMesh) sampleIndices sampleLight sampleScene (3 * k)
           (randomCalls sampleWorld + 150 * k) * faceArea (positionArray sampleMesh) sampleIndices (3 * k)) = 4"
proof -
  have h1: "indexArray sampleMesh = Some sampleIndices"
    by (simp add: sampleMesh_def)
  have h2: "ghi (page sampleWorld) = Some (Some 5.5)"
    by (simp add: sampleWorld_def samplePage_def)
  have p: "positionArray sampleMesh = samplePositions"
    by (simp add: sampleMesh_def)
  have a: "(\<Sum>k<faceCount (length sampleIndices). faceArea (positionArray sampleMesh) sampleIndices (3 * k)) = 4"
    by (simp add: p sample_count lessThan_two sample_area)
  have s: "(\<Sum>k<faceCount (length sampleIndices).
         faceShadow halves hitsMesh (positionArray sampleMesh) sampleIndices sampleLight sampleScene (3 * k)
           (randomCalls sampleWorld + 150 * k) * faceArea (positionArray sampleMesh) sampleIndices (3 * k)) = 4"
    by (simp add: p sample_count lessThan_two sample_area faceShadow_hitsMesh)
  define w' where
    "w' = snd (calculateRooftopArea halves hitsMesh twelveHours sampleMesh sampleLight sampleScene sampleWorld)"
  have h3: "calculateRooftopArea halves hitsMesh twelveHours sampleMesh sampleLight sampleScene sampleWorld
       = (Inr [\<lparr>faceA = 0, faceB = Some 1, faceC = Some 2, bipvValue = 0, faceType = Rooftop\<rparr>,
              \<lparr>faceA = 0, faceB = Some 2, faceC = Some 3, bipvValue = 0, faceType = Rooftop\<rparr>], w')"
    unfolding w'_def by (simp add: sample_run_hitsMesh)
  note T = aggregate_shadow_fractions [OF h1 h2 h3, unfolded a s]
  have "shadowFraction (page w')
       = Some (Fixed2 ''Average Shadow Fraction Over Total Area: '' (Some 1) [])"
    and "shadowFractionRooftop (page w')
       = Some (Fixed2 ''Rooftop Shadow Fraction: '' (Some (1 * 0.1753)) [])"
    using T by (simp_all add: js_divide_def setText_def sampleWorld_def samplePage_def)
  then show ?thesis
    using h1 h2 a s unfolding w'_def by (simp add: sample_run_hitsMesh)
qed

theorem rooftop_fraction_counterexample:
  "shadowFractionRooftop (page (snd (calculateRooftopArea halves hitsMesh twelveHours sampleMesh
       sampleLight sampleScene sampleWorld)))
     = Some (Fixed2 ''Rooftop Shadow Fraction: '' (Some 0.1753) [])
   \<and> js_divide (rooftopShadowSum halves hitsMesh samplePositions sampleIndices sampleLight sampleScene 0)
         (rooftopAreaSum samplePositions sampleIndices) = Some 1
   \<and> shadowFractionRooftop (page (snd (calculateRooftopArea halves hitsMesh twelveHours sampleMesh
       sampleLight sampleScene sampleWorld)))
     \<noteq> Some (Fixed2 ''Rooftop Shadow Fraction: ''
         (js_divide (rooftopShadowSum halves hitsMesh samplePositions sampleIndices sampleLight sampleScene 0)
            (rooftopAreaSum samplePositions sampleIndices)) [])"
  by (simp add: sample_run_hitsMesh sample_sums js_divide_def)

section \<open>What the estimator reads and writes\<close>

lemma sample_run_noHits:
  "calculateRooftopArea random noHits twelveHours sampleMesh light scene sampleWorld =
     (Inr [\<lparr>faceA = 0, faceB = Some 1, faceC = Some 2, bipvValue = 1.65, faceType = Rooftop\<rparr>,
           \<lparr>faceA = 0, faceB = Some 2, faceC = Some 3, bipvValue = 1.65, faceType = Rooftop\<rparr>],
      sampleWorld\<lparr>randomCalls := 300,
        page := samplePage
          \<lparr>buildingName := Some (Plain ''Mesh 1''),
           totalDaytime := Some (Fixed2 ''Total Daytime: '' (Some 12) '' hours''),
           totalArea := Some (Fixed2 ''Total Area (Rooftop + Vertical): '' (Some 4) '' sq.m''),
           rooftopArea := Some (Fixed2 ''Rooftop Area: '' (Some 4) '' sq.m''),
           shadowFraction := Some (Fixed2 ''Average Shadow Fraction Over Total Area: '' (Some 0) []),
           shadowFractionRooftop := Some (Fixed2 ''Rooftop Shadow Fraction: '' (Some 0) []),
           pvValue := Some (Fixed2 ''Total PV Value: '' (Some 3.3) '' kWhr''),
           pvValueRooftop := Some (Fixed2 ''PV Value (Rooftop): '' (Some 3.3) '' kWhr''),
           infoCard := Some ''block''\<rparr>\<rparr>)"
proof -
  have h1: "indexArray sampleMesh = Some sampleIndices"
    by (simp add: sampleMesh_def)
  have h2: "ghi (page sampleWorld) = Some (Some 5.5)"
    and h3: "dateInput (page sampleWorld) = Some ''2024-06-21''"
    by (simp_all add: sampleWorld_def samplePage_def)
  show ?thesis
    unfolding calculateRooftopArea_indexed [OF h1 h2 h3] Let_def
    by (simp add: sample_count sample_values sample_sums sampleMesh_def js_divide_def
          updateInfoCard_def setText_def getTotalDaytime_def twelveHours_def)
       (simp add: sampleWorld_def samplePage_def)
qed

text \<open>
  C4, as the program has it. \<open>calculateRooftopArea\<close> is not a pure function of its
  arguments: it reads the irradiance and the date from the page, and where the geometry has
  an index it writes the eight texts of the info card (the name and the aggregates) into the
  elements that exist and makes the card visible. What it returns is the list of the faces'
  values only; the aggregates are not returned. It changes no mesh, material or highlight,
  no alert, and not the exported sun position; without an index it adds a console message
  and leaves the page as it is, and when the irradiance or the date element is missing it
  throws before it changes anything.
\<close>

theorem estimator_effects:
  assumes run: "calculateRooftopArea random raycast getTimes building light scene w = (res, w')"
  shows "meshes w' = meshes w \<and> originalMaterials w' = originalMaterials w
     \<and> highlightedBuilding w' = highlightedBuilding w \<and> sunPosition w' = sunPosition w
     \<and> alerts w' = alerts w
     \<and> dateInput (page w') = dateInput (page w) \<and> timeSlider (page w') = timeSlider (page w)
     \<and> ghi (page w') = ghi (page w)
     \<and> (case res of
          Inl e \<Rightarrow> w' = w \<and> (ghi (page w) = None \<or> dateInput (page w) = None)
        | Inr vals \<Rightarrow>
            (case indexArray building of
               None \<Rightarrow> vals = [] \<and> w' = w\<lparr>console := console w @ [''Geometry must have an index'']\<rparr>
             | Some indices \<Rightarrow>
                 (let GHI = (case ghi (page w) of Some (Some g) \<Rightarrow> g | _ \<Rightarrow> 5.5);
                      vertices = positionArray building;
                      roof = rooftopAreaSum vertices indices;
                      area = roof + verticalAreaSum vertices indices;
                      shadow = js_divide
                        (rooftopShadowSum random raycast vertices indices light scene (randomCalls w)
                         + verticalShadowSum random raycast vertices indices light scene (randomCalls w)) area;
                      shadowRooftop = map_option (\<lambda>s. s * 0.1753) shadow
                  in vals = map (faceValue random raycast GHI vertices indices light scene (randomCalls w))
                              [0..<faceCount (length indices)]
                   \<and> console w' = console w
                   \<and> page w' = (page w)
                       \<lparr>buildingName := setText (buildingName (page w))
                          (Plain (if meshName building = [] then ''Unknown Building'' else meshName building)),
                        totalDaytime := setText (totalDaytime (page w))
                          (Fixed2 ''Total Daytime: ''
                             (getTotalDaytime getTimes (case dateInput (page w) of Some d \<Rightarrow> d | None \<Rightarrow> []))
                             '' hours''),
                        totalArea := setText (totalArea (page w))
                          (Fixed2 ''Total Area (Rooftop + Vertical): '' (Some area) '' sq.m''),
                        rooftopArea := setText (rooftopArea (page w))
                          (Fixed2 ''Rooftop Area: '' (Some roof) '' sq.m''),
                        shadowFraction := setText (shadowFraction (page w))
                          (Fixed2 ''Average Shadow Fraction Over Total Area: '' shadow []),
                        shadowFractionRooftop := setText (shadowFractionRooftop (page w))
                          (Fixed2 ''Rooftop Shadow Fraction: '' shadowRooftop []),
                        pvValue := setText (pvValue (page w))
                          (Fixed2 ''Total PV Value: ''
                             (map_option (\<lambda>s. GHI * area * (1 - s) * 0.15) shadow) '' kWhr''),
                        pvValueRooftop := setText (pvValueRooftop (page w))
                          (Fixed2 ''PV Value (Rooftop): ''
                             (map_option (\<lambda>s. GHI * roof * (1 - s) * 0.15) shadowRooftop) '' kWhr''),
                        infoCard := (case infoCard (page w) of None \<Rightarrow> None | Some _ \<Rightarrow> Some ''block'')\<rparr>)))"
proof (cases "ghi (page w)")
  case None
  with run show ?thesis by (auto simp: calculateRooftopArea_def)
next
  case g: (Some ghiValue)
  show ?thesis
  proof (cases "dateInput (page w)")
    case None
    with run g show ?thesis by (auto simp: calculateRooftopArea_def)
  next
    case d: (Some dateValue)
    show ?thesis
    proof (cases "indexArray building")
      case None
      with run g d show ?thesis by (auto simp: calculateRooftopArea_def Let_def)
    next
      case idx: (Some indices)
      from run have "res = fst (calculateRooftopArea random raycast getTimes building light scene w)"
        and "w' = snd (calculateRooftopArea random raycast getTimes building light scene w)"
        by simp_all
      then show ?thesis
        unfolding calculateRooftopArea_indexed [OF idx g d] Let_def
        by (cases ghiValue) (simp_all add: g d idx updateInfoCard_def)
    qed
  qed
qed

theorem estimator_effects_witness:
  "fst (calculateRooftopArea halves noHits twelveHours sampleMesh sampleLight sampleScene sampleWorld)
     = Inr [\<lparr>faceA = 0, faceB = Some 1, faceC = Some 2, bipvValue = 1.65, faceType = Rooftop\<rparr>,
            \<lparr>faceA = 0, faceB = Some 2, faceC = Some 3, bipvValue = 1.65, faceType = Rooftop\<rparr>]
   \<and> meshes (snd (calculateRooftopArea halves noHits twelveHours sampleMesh sampleLight sampleScene
        sampleWorld)) = meshes sampleWorld
   \<and> pvValue (page (snd (calculateRooftopArea halves noHits twelveHours sampleMesh sampleLight sampleScene
        sampleWorld))) = Some (Fixed2 ''Total PV Value: '' (Some 3.3) '' kWhr'')
   \<and> infoCard (page (snd (calculateRooftopArea halves noHits twelveHours sampleMesh sampleLight sampleScene
        sampleWorld))) = Some ''block''"
proof -
  define w' where
    "w' = snd (calculateRooftopArea halves noHits twelveHours sampleMesh sampleLight sampleScene sampleWorld)"
  have h: "calculateRooftopArea halves noHits twelveHours sampleMesh sampleLight sampleScene sampleWorld
     = (Inr [\<lparr>faceA = 0, faceB = Some 1, faceC = Some 2, bipvValue = 1.65, faceType = Rooftop\<rparr>,
            \<lparr>faceA = 0, faceB = Some 2, faceC = Some 3, bipvValue = 1.65, faceType = Rooftop\<rparr>], w')"
    unfolding w'_def by (simp add: sample_run_noHits)
  have i: "indexArray sampleMesh = Some sampleIndices" and p: "positionArray sampleMesh = samplePositions"
    by (simp_all add: sampleMesh_def)
  have g: "ghi (page sampleWorld) = Some (Some 5.5)" "infoCard (page sampleWorld) = Some ''none''"
    "pvValue (page sampleWorld) = Some (Plain [])"
    by (simp_all add: sampleWorld_def samplePage_def)
  from estimator_effects [OF h]
  have "meshes w' = meshes sampleWorld"
    and "pvValue (page w') = Some (Fixed2 ''Total PV Value: '' (Some 3.3) '' kWhr'')"
    and "infoCard (page w') = Some ''block''"
    by (simp_all add: i p g Let_def sample_sums js_divide_def setText_def)
  then show ?thesis
    unfolding w'_def by (simp add: sample_run_noHits)
qed

theorem estimator_writes_page_counterexample:
  "fst (calculateRooftopArea halves noHits twelveHours sampleMesh sampleLight sampleScene sampleWorld)
     = Inr [\<lparr>faceA = 0, faceB = Some 1, faceC = Some 2, bipvValue = 1.65, faceType = Rooftop\<rparr>,
            \<lparr>faceA = 0, faceB = Some 2, faceC = Some 3, bipvValue = 1.65, faceType = Rooftop\<rparr>]
   \<and> page (snd (calculateRooftopArea halves noHits twelveHours sampleMesh sampleLight sampleScene
        sampleWorld)) \<noteq> page sampleWorld
   \<and> pvValue (page sampleWorld) = Some (Plain [])
   \<and> pvValue (page (snd (calculateRooftopArea halves noHits twelveHours sampleMesh sampleLight sampleScene
        sampleWorld))) = Some (Fixed2 ''Total PV Value: '' (Some 3.3) '' kWhr'')
   \<and> infoCard (page sampleWorld) = Some ''none''
   \<and> infoCard (page (snd (calculateRooftopArea halves noHits twelveHours sampleMesh sampleLight sampleScene
        sampleWorld))) = Some ''block''"
  by (simp add: sample_run_noHits) (simp add: sampleWorld_def samplePage_def)

section \<open>The intensity of the light\<close>









section \<open>A click on a mesh without index\<close>

lemma revertHighlight_geometry:
  "indexArray (meshes (revertHighlight h w) b) = indexArray (meshes w b)"
  "positionArray (meshes (revertHighlight h w) b) = positionArray (meshes w b)"
  "page (revertHighlight h w) = page w" "console (revertHighlight h w) = console w"
  by (auto simp: revertHighlight_def split: option.splits)

lemma highlightBuilding_geometry:
  "indexArray (meshes (highlightBuilding h w) b) = indexArray (meshes w b)"
  "positionArray (meshes (highlightBuilding h w) b) = positionArray (meshes w b)"
  "page (highlightBuilding h w) = page w" "console (highlightBuilding h w) = console w"
  "material (meshes (highlightBuilding h w) h)
     = \<lparr>materialColor = 0xffff00, vertexColors = False, version = 0\<rparr>"
  by (auto simp: highlightBuilding_def Let_def)

lemma calculateRooftopArea_non_indexed:
  assumes "indexArray building = None" "ghi (page w) = Some ghiValue" "dateInput (page w) = Some dateValue"
  shows "calculateRooftopArea random raycast getTimes building light scene w
     = (Inr [], w\<lparr>console := console w @ [''Geometry must have an index'']\<rparr>)"
  using assms by (simp add: calculateRooftopArea_def Let_def)

lemma onBuildingClick_non_indexed:
  assumes idx: "indexArray (meshes w b) = None"
    and g: "ghi (page w) = Some ghiValue"
    and d: "dateInput (page w) = Some dateValue"
    and click: "onBuildingClick random raycast getTimes (b # rest) light scene w = (res, w')"
  shows "calculateRooftopArea random raycast getTimes (meshes w b) light scene w
           = (Inr [], w\<lparr>console := console w @ [''Geometry must have an index'']\<rparr>)
     \<and> res = Inr ()
     \<and> page w' = page w
     \<and> console w' = console w @ [''Geometry must have an index'']
     \<and> highlightedBuilding w' = Some b
     \<and> material (meshes w' b) = \<lparr>materialColor = 0xffff00, vertexColors = True, version = 1\<rparr>
     \<and> colorAttribute (meshes w' b) = Some (replicate (length (positionArray (meshes w b))) (Some 0))"
proof -
  define w1 where "w1 = (case highlightedBuilding w of None \<Rightarrow> w | Some h \<Rightarrow> revertHighlight h w)"
  define w3 where "w3 = (highlightBuilding b w1)\<lparr>highlightedBuilding := Some b\<rparr>"
  have w1: "indexArray (meshes w1 b) = None" "positionArray (meshes w1 b) = positionArray (meshes w b)"
    "page w1 = page w" "console w1 = console w"
    using idx by (auto simp: w1_def revertHighlight_geometry split: option.splits)
  have w3: "indexArray (meshes w3 b) = None" "positionArray (meshes w3 b) = positionArray (meshes w b)"
    "page w3 = page w" "console w3 = console w" "highlightedBuilding w3 = Some b"
    "material (meshes w3 b) = \<lparr>materialColor = 0xffff00, vertexColors = False, version = 0\<rparr>"
    using w1 by (simp_all add: w3_def highlightBuilding_geometry)
  have run: "calculateRooftopArea random raycast getTimes (meshes w3 b) light scene w3
     = (Inr [], w3\<lparr>console := console w3 @ [''Geometry must have an index'']\<rparr>)"
    by (rule calculateRooftopArea_non_indexed [OF w3(1)]) (simp_all add: w3 g d)
  from click have "res = Inr ()" and w': "w' = w3\<lparr>console := console w3 @ [''Geometry must have an index''],
       meshes := (meshes w3)(b := (meshes w3 b)
         \<lparr>colorAttribute := Some (faceColors (length (positionArray (meshes w3 b))) []),
          material := (material (meshes w3 b))\<lparr>vertexColors := True, version := version (material (meshes w3 b)) + 1\<rparr>\<rparr>)\<rparr>"
    unfolding onBuildingClick_def list.case Let_def w1_def [symmetric]
    unfolding w3_def [symmetric] run
    by simp_all
  show ?thesis
    unfolding w' \<open>res = Inr ()\<close>
    by (simp add: calculateRooftopArea_non_indexed [OF idx g d] w3 faceColors_def)
qed

lemma sample_positions_length: "length samplePositions = 12"
  by (simp add: samplePositions_def)

lemma nonIndexed_facts:
  "indexArray (meshes nonIndexedWorld 2) = None"
  "ghi (page nonIndexedWorld) = Some (Some 5.5)"
  "dateInput (page nonIndexedWorld) = Some ''2024-06-21''"
  "positionArray (meshes nonIndexedWorld 2) = samplePositions"
  "material (meshes nonIndexedWorld 2) = sampleMaterial"
  "colorAttribute (meshes nonIndexedWorld 2) = None"
  "highlightedBuilding nonIndexedWorld = None"
  "meshes nonIndexedWorld 2 = nonIndexedMesh"
  "positionArray nonIndexedMesh = samplePositions"
  "material nonIndexedMesh = sampleMaterial"
  "colorAttribute nonIndexedMesh = None"
  by (simp_all add: nonIndexedWorld_def nonIndexedMesh_def sampleWorld_def samplePage_def sampleMesh_def)

text \<open>
  C3, as the program has it. For a building whose geometry has no index array (the page
  having its irradiance and date elements), \<open>calculateRooftopArea\<close> adds the message
  \<open>Geometry must have an index\<close> to the console, returns the empty list and leaves the
  page as it is. The caller \<open>onBuildingClick\<close> does not look at that: it has highlighted
  the building before the call, and after it the building is the highlighted one, its
  material is the highlight material with vertex colours switched on, and its colour
  attribute is an array of zeros as long as the position array.
\<close>

theorem click_on_non_indexed:
  assumes "indexArray (meshes w b) = None"
    and "ghi (page w) = Some ghiValue"
    and "dateInput (page w) = Some dateValue"
    and "onBuildingClick random raycast getTimes (b # rest) light scene w = (res, w')"
  shows "calculateRooftopArea random raycast getTimes (meshes w b) light scene w
           = (Inr [], w\<lparr>console := console w @ [''Geometry must have an index'']\<rparr>)
     \<and> res = Inr ()
     \<and> page w' = page w
     \<and> console w' = console w @ [''Geometry must have an index'']
     \<and> highlightedBuilding w' = Some b
     \<and> material (meshes w' b) = \<lparr>materialColor = 0xffff00, vertexColors = True, version = 1\<rparr>
     \<and> colorAttribute (meshes w' b) = Some (replicate (length (positionArray (meshes w b))) (Some 0))"
  using assms by (rule onBuildingClick_non_indexed)

theorem click_on_non_indexed_witness:
  "indexArray (meshes nonIndexedWorld 2) = None
   \<and> ghi (page nonIndexedWorld) = Some (Some 5.5)
   \<and> dateInput (page nonIndexedWorld) = Some ''2024-06-21''
   \<and> fst (onBuildingClick halves noHits twelveHours [2] sampleLight sampleScene nonIndexedWorld) = Inr ()
   \<and> highlightedBuilding (snd (onBuildingClick halves noHits twelveHours [2] sampleLight sampleScene
         nonIndexedWorld)) = Some 2
   \<and> material (meshes (snd (onBuildingClick halves noHits twelveHours [2] sampleLight sampleScene
         nonIndexedWorld)) 2) = \<lparr>materialColor = 0xffff00, vertexColors = True, version = 1\<rparr>
   \<and> colorAttribute (meshes (snd (onBuildingClick halves noHits twelveHours [2] sampleLight sampleScene
         nonIndexedWorld)) 2) = Some (replicate 12 (Some 0))"
proof -
  obtain res w' where
    h: "onBuildingClick halves noHits twelveHours [2] sampleLight sampleScene nonIndexedWorld = (res, w')"
    by (cases "onBuildingClick halves noHits twelveHours [2] sampleLight sampleScene nonIndexedWorld")
  from click_on_non_indexed [OF nonIndexed_facts(1-3) h]
  have "res = Inr ()" "highlightedBuilding w' = Some 2"
    "material (meshes w' 2) = \<lparr>materialColor = 0xffff00, vertexColors = True, version = 1\<rparr>"
    "colorAttribute (meshes w' 2) = Some (replicate 12 (Some 0))"
    by (simp_all add: nonIndexed_facts sample_positions_length)
  then show ?thesis
    using nonIndexed_facts(1-3) by (simp add: h)
qed

theorem click_on_non_indexed_counterexample:
  "indexArray nonIndexedMesh = None
   \<and> fst (calculateRooftopArea halves noHits twelveHours nonIndexedMesh sampleLight sampleScene
         nonIndexedWorld) = Inr []
   \<and> highlightedBuilding nonIndexedWorld = None
   \<and> highlightedBuilding (snd (onBuildingClick halves noHits twelveHours [2] sampleLight sampleScene
         nonIndexedWorld)) = Some 2
   \<and> material (meshes nonIndexedWorld 2) = \<lparr>materialColor = 0xffffff, vertexColors = False, version = 0\<rparr>
   \<and> material (meshes (snd (onBuildingClick halves noHits twelveHours [2] sampleLight sampleScene
         nonIndexedWorld)) 2) = \<lparr>materialColor = 0xffff00, vertexColors = True, version = 1\<rparr>
   \<and> colorAttribute (meshes nonIndexedWorld 2) = None
   \<and> colorAttribute (meshes (snd (onBuildingClick halves noHits twelveHours [2] sampleLight sampleScene
         nonIndexedWorld)) 2) = Some (replicate 12 (Some 0))"
proof -
  obtain res w' where
    h: "onBuildingClick halves noHits twelveHours [2] sampleLight sampleScene nonIndexedWorld = (res, w')"
    by (cases "onBuildingClick halves noHits twelveHours [2] sampleLight sampleScene nonIndexedWorld")
  note T = onBuildingClick_non_indexed [OF nonIndexed_facts(1-3) h]
  have "indexArray nonIndexedMesh = None"
    by (simp add: nonIndexedMesh_def)
  moreover have "fst (calculateRooftopArea halves noHits twelveHours nonIndexedMesh sampleLight sampleScene
         nonIndexedWorld) = Inr []"
    using T by (simp add: nonIndexed_facts)
  ultimately show ?thesis
    using T by (simp add: h nonIndexed_facts sample_positions_length sampleMaterial_def)
qed

section \<open>The colour of a value\<close>







section \<open>Degenerate faces\<close>





section \<open>A page without time slider\<close>

text \<open>
  C7 at a page that has a date but no time slider. The function throws a \<open>TypeError\<close>:
  it shows no alert and does not return \<open>null\<close>, the way it does for a missing or empty date.
  The light and the state are as before the call.
\<close>

theorem missing_slider_throws:
  "dateInput (page noSliderWorld) = Some ''2024-06-21''
   \<and> timeSlider (page noSliderWorld) = None
   \<and> updateSunPosition getPosition light noSliderWorld = (Inl TypeError, light, noSliderWorld)
   \<and> updateSunPosition getPosition light (sampleWorld\<lparr>page := samplePage\<lparr>dateInput := None\<rparr>\<rparr>)
       = (Inr None, light,
          sampleWorld\<lparr>page := samplePage\<lparr>dateInput := None\<rparr>, alerts := [''Please enter a date.'']\<rparr>)
   \<and> updateSunPosition getPosition light (sampleWorld\<lparr>page := samplePage\<lparr>dateInput := Some []\<rparr>\<rparr>)
       = (Inr None, light,
          sampleWorld\<lparr>page := samplePage\<lparr>dateInput := Some []\<rparr>, alerts := [''Please enter a date.'']\<rparr>)"
  by (simp add: updateSunPosition_def noSliderWorld_def sampleWorld_def samplePage_def)

end
